theory Spec2Isabelle
  imports Complex_Main "HOL-Library.AList" "HOL-Library.Stream"
begin

section \<open>Python strings\<close>

text \<open>
  A Python \<open>str\<close> is modelled as a \<^typ>\<open>string\<close>, one \<^typ>\<open>char\<close> per code point
  (code points below 256). The decorative symbols of the fixed reply texts that lie
  beyond that range are spelled as their UTF-8 bytes; no property below reads them.
\<close>

definition py_isspace :: "char \<Rightarrow> bool" where
  \<comment> \<open>\<open>str.isspace\<close> on one code point below 256\<close>
  "py_isspace c =
     (let n = (of_char c :: nat)
      in (9 \<le> n \<and> n \<le> 13) \<or> (28 \<le> n \<and> n \<le> 32) \<or> n = 133 \<or> n = 160)"

definition strip :: "string \<Rightarrow> string" where
  \<comment> \<open>\<open>s.strip()\<close>\<close>
  "strip s = rev (dropWhile py_isspace (rev (dropWhile py_isspace s)))"

definition startswith :: "string \<Rightarrow> string \<Rightarrow> bool" where
  \<comment> \<open>\<open>s.startswith(p)\<close>\<close>
  "startswith s p = (take (length p) s = p)"

definition split_last :: "char \<Rightarrow> string \<Rightarrow> string" where
  \<comment> \<open>\<open>s.split(c)[-1]\<close>: what follows the last \<open>c\<close>\<close>
  "split_last c s = rev (takeWhile (\<lambda>x. x \<noteq> c) (rev s))"

definition digit_char :: "nat \<Rightarrow> char" where
  "digit_char d = ''0123456789'' ! d"

fun str_nat :: "nat \<Rightarrow> string" where
  \<comment> \<open>\<open>str(n)\<close> for a non-negative integer\<close>
  "str_nat n = (if n < 10 then [digit_char n] else str_nat (n div 10) @ [digit_char (n mod 10)])"

declare str_nat.simps [simp del]

definition NL :: string where
  "NL = [CHR 0x0A]"

definition APOS :: string where
  "APOS = [CHR 0x27]"

section \<open>agent.py: the AdConfig model\<close>

text \<open>
  \<open>self.ad_config\<close> is a dictionary from field names to the values the language model
  proposed; the function schema types every value as string or null.
\<close>

datatype pyval = PNone | PStr string

text \<open>
  A dictionary keeps its keys in insertion order and holds each key once: an
  association list, read with \<^const>\<open>map_of\<close> and written with \<^const>\<open>AList.update\<close>
  (which replaces the value in place, or appends a new key).
\<close>

type_synonym pydict = "(string \<times> pyval) list"

text \<open>
  What construction of the model can report for one field: the library's own checks
  (a required field not supplied, a value that is not a string, the \<open>min_length\<close> and
  \<open>max_length\<close> of \<open>Field\<close>), or the \<open>ValueError\<close> a validator of the source raises,
  with its text.
\<close>

datatype violation =
    Missing
  | StringRequired
  | TooShort nat
  | TooLong nat
  | ValueError string

record AdConfig =
  campaign_name :: string
  objective :: string
  ad_text :: string
  cta :: string
  music_id :: "string option"

definition validate_campaign_name :: "string \<Rightarrow> string + string" where
  "validate_campaign_name v =
     (let v' = strip v
      in if length v' < 3 then Inl ''Campaign name must be at least 3 characters''
         else Inr v')"

definition validate_objective :: "string \<Rightarrow> string + string" where
  "validate_objective v =
     (if v \<notin> set [''Traffic'', ''Conversions'']
      then Inl (''Objective must be '' @ APOS @ ''Traffic'' @ APOS @ '' or '' @ APOS @ ''Conversions'' @ APOS)
      else Inr v)"

definition validate_ad_text :: "string \<Rightarrow> string + string" where
  "validate_ad_text v =
     (if length v > 100
      then Inl (''Ad text cannot exceed 100 characters (current: '' @ str_nat (length v) @ '')'')
      else Inr v)"

definition truthy :: "string option \<Rightarrow> bool" where
  \<comment> \<open>Python truth value of an optional string: \<open>None\<close> and \<open>""\<close> are false\<close>
  "truthy v = (case v of None \<Rightarrow> False | Some s \<Rightarrow> s \<noteq> [])"

definition validate_music_logic :: "string option \<Rightarrow> string option \<Rightarrow> string + string option" where
  \<comment> \<open>second argument: \<open>values.get('objective')\<close>, the objective if it validated\<close>
  "validate_music_logic v obj =
     (if obj = Some ''Conversions'' \<and> \<not> truthy v
      then Inl (''Music is REQUIRED when objective is '' @ APOS @ ''Conversions'' @ APOS @ ''. ''
                @ ''Please provide a music ID or upload custom music.'')
      else if v \<noteq> None \<and> length (strip (the v)) = 0
      then Inl ''Music ID cannot be empty''
      else Inr v)"

text \<open>
  One field through pydantic: a required \<open>str\<close> field first meets the library's own
  checks (supplied, a string, the length bounds of its \<open>Field\<close>), and only a value
  that passed them reaches the \<open>@validator\<close> the class declares for the field.
\<close>

definition str_field ::
  "nat option \<Rightarrow> nat option \<Rightarrow> (string \<Rightarrow> string + string) \<Rightarrow> pyval option \<Rightarrow> violation + string" where
  "str_field min_length max_length validator arg =
     (case arg of
        None \<Rightarrow> Inl Missing
      | Some PNone \<Rightarrow> Inl StringRequired
      | Some (PStr s) \<Rightarrow>
          (if (case min_length of None \<Rightarrow> False | Some n \<Rightarrow> length s < n) then Inl (TooShort (the min_length))
           else if (case max_length of None \<Rightarrow> False | Some n \<Rightarrow> length s > n) then Inl (TooLong (the max_length))
           else (case validator s of Inl msg \<Rightarrow> Inl (ValueError msg) | Inr v \<Rightarrow> Inr v)))"

text \<open>
  \<open>music_id\<close> is \<open>Optional[str]\<close> with default \<open>None\<close>, and its validator is declared
  as \<open>@validator('music_id')\<close>, without \<open>always=True\<close>: pydantic runs such a validator
  on a supplied value only (also a supplied \<open>None\<close>); a field left out takes its
  default unvalidated.
\<close>

definition music_field :: "string option \<Rightarrow> pyval option \<Rightarrow> violation + string option" where
  "music_field obj arg =
     (case arg of
        None \<Rightarrow> Inr None
      | Some a \<Rightarrow>
          (case validate_music_logic (case a of PNone \<Rightarrow> None | PStr s \<Rightarrow> Some s) obj of
             Inl msg \<Rightarrow> Inl (ValueError msg)
           | Inr v \<Rightarrow> Inr v))"

definition errs :: "string \<Rightarrow> violation + 'a \<Rightarrow> (string \<times> violation) list" where
  "errs name r = (case r of Inl e \<Rightarrow> [(name, e)] | Inr _ \<Rightarrow> [])"

definition validated :: "violation + 'a \<Rightarrow> 'a option" where
  "validated r = (case r of Inl _ \<Rightarrow> None | Inr v \<Rightarrow> Some v)"

text \<open>
  \<open>AdConfig(**kwargs)\<close>: every field is checked in declaration order, the errors of
  all fields are collected, and keys that name no field are ignored. The call raises
  the collected errors (\<open>Inl\<close>) or returns the model.
\<close>

definition AdConfig_init :: "pydict \<Rightarrow> (string \<times> violation) list + AdConfig" where
  "AdConfig_init kwargs =
     (let r1 = str_field (Some 3) None validate_campaign_name (map_of kwargs ''campaign_name'');
          r2 = str_field None None validate_objective (map_of kwargs ''objective'');
          r3 = str_field None (Some 100) validate_ad_text (map_of kwargs ''ad_text'');
          r4 = str_field None None Inr (map_of kwargs ''cta'');
          r5 = music_field (validated r2) (map_of kwargs ''music_id'')
      in (case (r1, r2, r3, r4, r5) of
            (Inr a, Inr b, Inr c, Inr d, Inr e) \<Rightarrow>
              Inr \<lparr>campaign_name = a, objective = b, ad_text = c, cta = d, music_id = e\<rparr>
          | _ \<Rightarrow>
              Inl (errs ''campaign_name'' r1 @ errs ''objective'' r2 @ errs ''ad_text'' r3
                   @ errs ''cta'' r4 @ errs ''music_id'' r5)))"

definition dict :: "AdConfig \<Rightarrow> pydict" where
  \<comment> \<open>\<open>validated_config.dict()\<close>\<close>
  "dict c =
     [(''campaign_name'', PStr (campaign_name c)), (''objective'', PStr (objective c)),
      (''ad_text'', PStr (ad_text c)), (''cta'', PStr (cta c)),
      (''music_id'', (case music_id c of None \<Rightarrow> PNone | Some m \<Rightarrow> PStr m))]"

section \<open>mock_api.py: the simulated platform and the error interpreter\<close>

text \<open>
  A response dictionary has one of two shapes: \<open>success\<close> true with \<open>data\<close>, or
  \<open>success\<close> false with \<open>error_code\<close> and \<open>message\<close>. Numbers inside \<open>data\<close> are
  kept as the text \<open>str\<close> gives them.
\<close>

datatype api_result = Success pydict | Failure string string

record upload_meta =
  file_path :: string
  uploaded_at :: string

record MockTikTokAPI =
  valid_music_ids :: "string list"
  uploaded_music :: "(string \<times> upload_meta) list"
  simulate_failures :: bool
  failure_rate :: real

definition MockTikTokAPI_init :: "bool \<Rightarrow> real \<Rightarrow> MockTikTokAPI" where
  "MockTikTokAPI_init sim rate =
     \<lparr>valid_music_ids = [''12345'', ''67890'', ''11111'', ''22222'', ''33333''],
      uploaded_music = [], simulate_failures = sim, failure_rate = rate\<rparr>"

text \<open>
  The draws of the random generator are arguments: \<open>rnd\<close> is what \<open>random.random()\<close>
  returns if the call is reached (it is not when \<open>simulate_failures\<close> is off), and the
  naturals are what \<open>random.randint\<close> returns.
\<close>

definition validate_music_id :: "MockTikTokAPI \<Rightarrow> real \<Rightarrow> string \<Rightarrow> string \<Rightarrow> api_result" where
  "validate_music_id self rnd mid access_token =
     (if simulate_failures self \<and> rnd < failure_rate self
      then Failure ''INVALID_TOKEN'' ''Access token has expired''
      else if mid \<in> set (valid_music_ids self) \<or> startswith mid ''UPLOAD_''
      then Success [(''music_id'', PStr mid), (''title'', PStr (''Sample Track '' @ mid)),
                    (''artist'', PStr ''Mock Artist''), (''duration'', PStr ''30''),
                    (''genre'', PStr ''Pop'')]
      else Failure ''MUSIC_NOT_FOUND''
             (''Music ID '' @ APOS @ mid @ APOS @ '' does not exist or has been removed''))"

definition upload_music ::
  "MockTikTokAPI \<Rightarrow> real \<Rightarrow> nat \<Rightarrow> string \<Rightarrow> string \<Rightarrow> api_result \<times> MockTikTokAPI" where
  "upload_music self rnd n path access_token =
     (if simulate_failures self \<and> rnd < failure_rate self
      then (Failure ''GEO_RESTRICTED'' ''Music upload is not available in your region'', self)
      else
        (let new_music_id = ''UPLOAD_'' @ str_nat n
         in (Success [(''music_id'', PStr new_music_id),
                      (''title'', PStr (split_last (CHR 0x5C) (split_last CHR ''/'' path))),
                      (''status'', PStr ''ready''), (''duration'', PStr ''30'')],
             self\<lparr>uploaded_music :=
                    AList.update new_music_id
                      \<lparr>file_path = path, uploaded_at = ''2026-01-31T12:00:00Z''\<rparr>
                      (uploaded_music self),
                  valid_music_ids := valid_music_ids self @ [new_music_id]\<rparr>)))"

definition get :: "pydict \<Rightarrow> string \<Rightarrow> pyval" where
  \<comment> \<open>\<open>d.get(k)\<close>\<close>
  "get d k = (case map_of d k of None \<Rightarrow> PNone | Some v \<Rightarrow> v)"

definition create_ad ::
  "MockTikTokAPI \<Rightarrow> real \<Rightarrow> nat \<Rightarrow> nat \<Rightarrow> pydict \<Rightarrow> string \<Rightarrow> api_result" where
  "create_ad self rnd n1 n2 payload access_token =
     (if simulate_failures self \<and> rnd < 0.05
      then Failure ''INVALID_TOKEN'' ''Access token has expired''
      else if simulate_failures self \<and> rnd < 0.08
      then Failure ''INSUFFICIENT_PERMISSIONS'' ''Missing ads management permission''
      else if simulate_failures self \<and> rnd < 0.10
      then Failure ''INVALID_MUSIC_ID'' ''Music cannot be used for ads due to licensing''
      else Success [(''ad_id'', PStr (''AD_'' @ str_nat n1)),
                    (''campaign_id'', PStr (''CAMP_'' @ str_nat n2)),
                    (''status'', PStr ''pending_review''),
                    (''created_at'', PStr ''2026-01-31T12:00:00Z''),
                    (''campaign_name'', get payload ''campaign_name''),
                    (''objective'', get payload ''objective'')])"

record error_info =
  explanation :: string
  action :: string
  retryable :: bool
  severity :: string

definition ARROW :: string where
  "ARROW = [CHR 0xE2, CHR 0x86, CHR 0x92]"

definition ERRORS :: "(string \<times> error_info) list" where
  "ERRORS =
     [(''INVALID_TOKEN'',
       \<lparr>explanation = ''Your TikTok access token has expired or is invalid.'',
        action = ''I'll attempt to refresh your token automatically. If this fails, you'll need to re-authenticate with TikTok.'',
        retryable = True, severity = ''medium''\<rparr>),
      (''INSUFFICIENT_PERMISSIONS'',
       \<lparr>explanation = ''Your TikTok app doesn't have the required permissions to create ads.'',
        action = ''Please go to TikTok Developer Portal '' @ ARROW @ '' Your App '' @ ARROW
                 @ '' Permissions and enable 'Ads Management' scope, then re-authenticate.'',
        retryable = False, severity = ''high''\<rparr>),
      (''MUSIC_NOT_FOUND'',
       \<lparr>explanation = ''The music ID you provided doesn't exist in TikTok's library or has been removed.'',
        action = ''Would you like to: 1) Try a different music ID, 2) Upload your own music, or 3) Proceed without music (if your objective allows)?'',
        retryable = False, severity = ''low''\<rparr>),
      (''INVALID_MUSIC_ID'',
       \<lparr>explanation = ''This music track cannot be used for TikTok ads, possibly due to licensing restrictions.'',
        action = ''Please choose a different music track from TikTok's library or upload your own music with proper licensing.'',
        retryable = False, severity = ''medium''\<rparr>),
      (''GEO_RESTRICTED'',
       \<lparr>explanation = ''This feature is not available in your geographical region.'',
        action = ''Unfortunately, TikTok Ads API has regional restrictions. You may need to use a different account or contact TikTok Business support.'',
        retryable = False, severity = ''high''\<rparr>)]"

definition ErrorInterpreter_interpret :: "string \<Rightarrow> error_info" where
  \<comment> \<open>\<open>ErrorInterpreter.interpret\<close>: \<open>cls.ERRORS.get(error_code, default)\<close>\<close>
  "ErrorInterpreter_interpret error_code =
     (case map_of ERRORS error_code of
        Some e \<Rightarrow> e
      | None \<Rightarrow>
          \<lparr>explanation = ''An unexpected error occurred: '' @ error_code,
           action = ''Please try again. If the issue persists, contact support.'',
           retryable = True, severity = ''medium''\<rparr>)"

section \<open>agent.py: the language-model client and the conversation manager\<close>

text \<open>
  An exception is a value: its class, as far as the handlers of the source tell classes
  apart (\<open>ValueError\<close>, \<open>KeyError\<close>, any other \<open>Exception\<close>), and its text.
\<close>

datatype exn = PyValueError string | PyKeyError string | PyException string

definition str_exn :: "exn \<Rightarrow> string" where
  \<comment> \<open>\<open>str(e)\<close>; a \<open>KeyError\<close> prints its key quoted\<close>
  "str_exn e = (case e of PyValueError m \<Rightarrow> m | PyKeyError k \<Rightarrow> APOS @ k @ APOS | PyException m \<Rightarrow> m)"

definition fmt :: "pyval \<Rightarrow> string" where
  \<comment> \<open>a value inside an f-string\<close>
  "fmt v = (case v of PNone \<Rightarrow> ''None'' | PStr s \<Rightarrow> s)"

definition with_item :: "pydict \<Rightarrow> string \<Rightarrow> (pyval \<Rightarrow> exn + 'a) \<Rightarrow> exn + 'a" where
  \<comment> \<open>read \<open>d[k]\<close> and go on with it; a missing key raises \<open>KeyError\<close>\<close>
  "with_item d k f = (case map_of d k of None \<Rightarrow> Inl (PyKeyError k) | Some v \<Rightarrow> f v)"

text \<open>
  The arguments the model returns are decoded JSON, and nothing checks them against the
  function schema. The message and the action are therefore kept as the JSON values
  they are: a string, but also \<open>null\<close> or any other value.
\<close>

datatype json =
    JNull
  | JBool bool
  | JNum int
  | JStr string
  | JArr "json list"
  | JObj "(string \<times> json) list"


text \<open>
  The dictionary the client hands to the manager, one optional field per key
  (\<open>None\<close>: the key is not there). The state, when it is there, is taken as the
  function schema declares it: an object whose values are strings or \<open>null\<close>.
\<close>

record response =
  resp_message :: "json option"
  resp_reasoning :: "string option"
  resp_state :: "pydict option"
  resp_action :: "json option"
  resp_errors :: "string list option"

text \<open>
  \<open>LLMClient.get_response\<close>. The first argument is what the \<open>try\<close> block obtains from
  the completion call and \<open>json.loads\<close>: the decoded arguments, or the exception raised
  there (by the call, by the decoder, or by the three defaults on a decoded value that is
  not an object). The function calls the model once and checks nothing: the decoded
  arguments are returned with the three defaults filled in.
\<close>

definition get_response :: "exn + response \<Rightarrow> 'm list \<Rightarrow> pydict \<Rightarrow> response" where
  "get_response completion msgs context =
     (case completion of
        Inr result \<Rightarrow>
          result\<lparr>resp_reasoning :=
                   (case resp_reasoning result of None \<Rightarrow> Some ''No reasoning provided'' | Some r \<Rightarrow> Some r),
                 resp_state := (case resp_state result of None \<Rightarrow> Some [] | Some st \<Rightarrow> Some st),
                 resp_errors := (case resp_errors result of None \<Rightarrow> Some [] | Some es \<Rightarrow> Some es)\<rparr>
      | Inl e \<Rightarrow>
          \<lparr>resp_message =
             Some (JStr (''I apologize, but I encountered an error: '' @ str_exn e @ ''. Let's try again.'')),
           resp_reasoning = Some (''LLM error: '' @ str_exn e),
           resp_state = Some context,
           resp_action = Some (JStr ''collect''),
           resp_errors = Some [str_exn e]\<rparr>)"

text \<open>
  An entry of the history. Its content is what was appended: the user's text, or the
  reply, which is whatever value the turn returns.
\<close>

record chat_message =
  role :: string
  content :: json

record ConversationManager =
  messages :: "chat_message list"
  ad_config :: pydict
  conversation_started :: bool

definition ConversationManager_init :: ConversationManager where
  "ConversationManager_init = \<lparr>messages = [], ad_config = [], conversation_started = False\<rparr>"

text \<open>
  The platform client is injected; a turn calls it at most once. Its answer is an
  argument (a response, or the exception the call raises), and every function returns
  the calls it made, with their arguments.
\<close>

datatype api_outcome = ApiRaises exn | ApiReturns api_result

datatype api_call =
    ValidateMusicId string string
  | UploadMusic string string
  | CreateAd pydict string

definition WARN :: string where
  "WARN = [CHR 0xE2, CHR 0x9A, CHR 0xA0, CHR 0xEF, CHR 0xB8, CHR 0x8F]"

definition CHECK :: string where
  "CHECK = [CHR 0xE2, CHR 0x9C, CHR 0x85]"

definition CROSS :: string where
  "CROSS = [CHR 0xE2, CHR 0x9D, CHR 0x8C]"

definition NOTE :: string where
  "NOTE = [CHR 0xF0, CHR 0x9F, CHR 0x8E, CHR 0xB5]"

definition MIC :: string where
  "MIC = [CHR 0xF0, CHR 0x9F, CHR 0x8E, CHR 0xA4]"

definition TIMER :: string where
  "TIMER = [CHR 0xE2, CHR 0x8F, CHR 0xB1, CHR 0xEF, CHR 0xB8, CHR 0x8F]"

definition BULB :: string where
  "BULB = [CHR 0xF0, CHR 0x9F, CHR 0x92, CHR 0xA1]"

definition FOLDER :: string where
  "FOLDER = [CHR 0xF0, CHR 0x9F, CHR 0x93, CHR 0x81]"

definition SPARKLES :: string where
  "SPARKLES = [CHR 0xE2, CHR 0x9C, CHR 0xA8]"

definition PARTY :: string where
  "PARTY = [CHR 0xF0, CHR 0x9F, CHR 0x8E, CHR 0x89]"

definition CHART :: string where
  "CHART = [CHR 0xF0, CHR 0x9F, CHR 0x93, CHR 0x8A]"

definition CALENDAR :: string where
  "CALENDAR = [CHR 0xF0, CHR 0x9F, CHR 0x93, CHR 0x85]"

definition error_reply :: "error_info \<Rightarrow> string" where
  \<comment> \<open>the reply of \<open>_validate_music\<close> and \<open>_upload_music\<close> to a failed call\<close>
  "error_reply error =
     CROSS @ '' **'' @ explanation error @ ''**'' @ NL @ NL @ BULB @ '' '' @ action error"

definition cm_validate_music :: "ConversationManager \<Rightarrow> api_outcome \<Rightarrow> (exn + string) \<times> api_call list" where
  \<comment> \<open>\<open>ConversationManager._validate_music\<close>\<close>
  "cm_validate_music self api =
     (case map_of (ad_config self) ''music_id'' of
        Some (PStr mid) \<Rightarrow>
          (if mid = [] then (Inr (WARN @ '' Please provide a music ID to validate.''), [])
           else
             (case api of
                ApiRaises e \<Rightarrow> Inl e
              | ApiReturns (Success data) \<Rightarrow>
                  with_item data ''title'' (\<lambda>title.
                  with_item data ''artist'' (\<lambda>artist.
                  with_item data ''duration'' (\<lambda>duration.
                    Inr (CHECK @ '' Music validated successfully!'' @ NL @ NL
                         @ NOTE @ '' **Track**: '' @ fmt title @ NL
                         @ MIC @ '' **Artist**: '' @ fmt artist @ NL
                         @ TIMER @ '' **Duration**: '' @ fmt duration @ ''s'' @ NL @ NL
                         @ ''Great choice! Now, what would you like your ad text to say? (Max 100 characters)''))))
              | ApiReturns (Failure code msg) \<Rightarrow> Inr (error_reply (ErrorInterpreter_interpret code)),
              [ValidateMusicId mid ''mock_access_token'']))
      | _ \<Rightarrow> (Inr (WARN @ '' Please provide a music ID to validate.''), []))"

definition cm_upload_music ::
  "ConversationManager \<Rightarrow> string \<Rightarrow> api_outcome \<Rightarrow> (exn + string) \<times> ConversationManager \<times> api_call list" where
  \<comment> \<open>\<open>ConversationManager._upload_music\<close>; the stored music id stays stored if the reply then fails\<close>
  "cm_upload_music self path api =
     (let calls = [UploadMusic path ''mock_access_token'']
      in case api of
           ApiRaises e \<Rightarrow> (Inl e, self, calls)
         | ApiReturns (Failure code msg) \<Rightarrow> (Inr (error_reply (ErrorInterpreter_interpret code)), self, calls)
         | ApiReturns (Success data) \<Rightarrow>
             (case map_of data ''music_id'' of
                None \<Rightarrow> (Inl (PyKeyError ''music_id''), self, calls)
              | Some mid \<Rightarrow>
                  (with_item data ''title'' (\<lambda>title.
                   with_item data ''status'' (\<lambda>status.
                     Inr (CHECK @ '' Music uploaded successfully!'' @ NL @ NL
                          @ NOTE @ '' **Music ID**: '' @ fmt mid @ NL
                          @ FOLDER @ '' **File**: '' @ fmt title @ NL
                          @ SPARKLES @ '' **Status**: '' @ fmt status @ NL @ NL
                          @ ''Excellent! Now let's create your ad text. What message would you like to convey? (Max 100 characters)''))),
                   self\<lparr>ad_config := AList.update ''music_id'' mid (ad_config self)\<rparr>, calls)))"

definition validation_failed :: "string \<Rightarrow> string" where
  "validation_failed e =
     CROSS @ '' **Validation Failed**'' @ NL @ NL @ ''**Issue**: '' @ e @ NL @ NL
     @ ''Please provide the correct information and I'll help you fix this.''"

definition unexpected_error :: "string \<Rightarrow> string" where
  "unexpected_error e =
     CROSS @ '' An unexpected error occurred: '' @ e @ NL @ NL @ ''Please try again.''"

definition submit_success :: "pydict \<Rightarrow> exn + string" where
  "submit_success data =
     with_item data ''ad_id'' (\<lambda>ad_id.
     with_item data ''campaign_id'' (\<lambda>campaign_id.
     with_item data ''status'' (\<lambda>status.
     with_item data ''created_at'' (\<lambda>created_at.
     with_item data ''campaign_name'' (\<lambda>name.
     with_item data ''objective'' (\<lambda>obj.
       Inr (PARTY @ '' **SUCCESS! Your TikTok ad has been created!**'' @ NL @ NL
            @ CHART @ '' **Ad ID**: '' @ fmt ad_id @ NL
            @ CHART @ '' **Campaign ID**: '' @ fmt campaign_id @ NL
            @ CHART @ '' **Status**: '' @ fmt status @ NL
            @ CALENDAR @ '' **Created**: '' @ fmt created_at @ NL @ NL
            @ ''**Campaign Details:**'' @ NL
            @ ''- Name: '' @ fmt name @ NL
            @ ''- Objective: '' @ fmt obj @ NL @ NL
            @ ''Your ad is now pending review by TikTok. You'll be notified once it's approved!'' @ NL @ NL
            @ ''Would you like to create another ad? Just say 'yes' or 'new campaign'' @ APOS @ ''!'')))))))"

definition submit_failed :: "error_info \<Rightarrow> string" where
  "submit_failed error =
     (let retry_msg = (if retryable error then NL @ NL @ ''Would you like me to retry the submission?'' else [])
      in CROSS @ '' **Submission Failed**'' @ NL @ NL
         @ ''**Issue**: '' @ explanation error @ NL @ NL
         @ BULB @ '' **What to do**: '' @ action error @ retry_msg)"

text \<open>
  \<open>ConversationManager._submit_ad\<close>. \<open>err_str\<close> is the library's \<open>str\<close> of the validation
  error that the construction of the model raises (a \<open>ValueError\<close>).
\<close>

definition cm_submit_ad ::
  "ConversationManager \<Rightarrow> ((string \<times> violation) list \<Rightarrow> string) \<Rightarrow> api_outcome \<Rightarrow> string \<times> api_call list" where
  "cm_submit_ad self err_str api =
     (case AdConfig_init (ad_config self) of
        Inl e \<Rightarrow> (validation_failed (err_str e), [])
      | Inr validated_config \<Rightarrow>
          (case api of
             ApiRaises (PyValueError m) \<Rightarrow> validation_failed m
           | ApiRaises e \<Rightarrow> unexpected_error (str_exn e)
           | ApiReturns (Success data) \<Rightarrow>
               (case submit_success data of Inr m \<Rightarrow> m | Inl e \<Rightarrow> unexpected_error (str_exn e))
           | ApiReturns (Failure code msg) \<Rightarrow> submit_failed (ErrorInterpreter_interpret code),
           [CreateAd (dict validated_config) ''mock_access_token'']))"

fun merge_state :: "pydict \<Rightarrow> pydict \<Rightarrow> pydict" where
  \<comment> \<open>the loop over \<open>response["state"].items()\<close>: only values that are not \<open>None\<close> are stored\<close>
  "merge_state config [] = config"
| "merge_state config ((key, val) # items) =
     merge_state (if val \<noteq> PNone then AList.update key val config else config) items"

definition as_reply :: "exn + string \<Rightarrow> exn + json" where
  \<comment> \<open>a handler's result: the exception it raised, or the string it returned\<close>
  "as_reply r = (case r of Inl e \<Rightarrow> Inl e | Inr m \<Rightarrow> Inr (JStr m))"

definition process_message_try ::
  "ConversationManager \<Rightarrow> string \<Rightarrow> exn + response \<Rightarrow> ((string \<times> violation) list \<Rightarrow> string)
   \<Rightarrow> api_outcome \<Rightarrow> (exn + json) \<times> ConversationManager \<times> api_call list" where
  \<comment> \<open>the \<open>try\<close> block of \<open>process_message\<close>, up to the reply it computes or the exception\<close>
  "process_message_try self user_msg llm err_str api =
     (case llm of
        Inl e \<Rightarrow> (Inl e, self, [])
      | Inr response \<Rightarrow>
          (case resp_message response of
             None \<Rightarrow> (Inl (PyKeyError ''message''), self, [])
           | Some agent_msg \<Rightarrow>
               (let act = (case resp_action response of None \<Rightarrow> JStr ''collect'' | Some a \<Rightarrow> a);
                    self' = (case resp_state response of
                               None \<Rightarrow> self
                             | Some st \<Rightarrow>
                                 if st = [] then self
                                 else self\<lparr>ad_config := merge_state (ad_config self) st\<rparr>)
                in if act = JStr ''validate_music''
                   then (case cm_validate_music self' api of (r, calls) \<Rightarrow> (as_reply r, self', calls))
                   else if act = JStr ''upload_music''
                   then (case cm_upload_music self' user_msg api of
                           (r, self'', calls) \<Rightarrow> (as_reply r, self'', calls))
                   else if act = JStr ''submit''
                   then (case cm_submit_ad self' err_str api of (m, calls) \<Rightarrow> (Inr (JStr m), self', calls))
                   else (Inr agent_msg, self', []))))"

definition process_message ::
  "ConversationManager \<Rightarrow> string \<Rightarrow> exn + response \<Rightarrow> ((string \<times> violation) list \<Rightarrow> string)
   \<Rightarrow> api_outcome \<Rightarrow> json \<times> ConversationManager \<times> api_call list" where
  \<comment> \<open>\<open>llm\<close>: what \<open>self.llm.get_response\<close> returns or raises in this turn; the first
      component is the value returned\<close>
  "process_message self user_msg llm err_str api =
     (let self1 = self\<lparr>messages := messages self @ [\<lparr>role = ''user'', content = JStr user_msg\<rparr>]\<rparr>
      in case process_message_try self1 user_msg llm err_str api of
           (Inr agent_msg, self2, calls) \<Rightarrow>
             (agent_msg,
              self2\<lparr>messages := messages self2 @ [\<lparr>role = ''assistant'', content = agent_msg\<rparr>]\<rparr>,
              calls)
         | (Inl e, self2, calls) \<Rightarrow>
             (let error_msg = ''I apologize, but I encountered an error: '' @ str_exn e
                              @ ''. Could you please try again?''
              in (JStr error_msg,
                  self2\<lparr>messages := messages self2 @ [\<lparr>role = ''assistant'', content = JStr error_msg\<rparr>]\<rparr>,
                  calls)))"

section \<open>src/api_mock.py: the simulated capability of the second agent\<close>

text \<open>
  The methods of this package answer with a dictionary whose \<open>status\<close> is \<open>success\<close>
  (with further keys such as \<open>ad_id\<close> or \<open>music_id\<close>) or \<open>error\<close> (with an optional
  \<open>code\<close> and a \<open>message\<close>).
\<close>

datatype status = StatusSuccess "(string \<times> string) list" | StatusError "int option" "string option"

definition is_error :: "status \<Rightarrow> bool" where
  \<comment> \<open>\<open>auth["status"] == "error"\<close>\<close>
  "is_error r = (case r of StatusError _ _ \<Rightarrow> True | StatusSuccess _ \<Rightarrow> False)"

record ApiMock =
  mock_access_token :: "string option"
  music_db :: "(string \<times> bool) list"
  mock_failures_geo :: bool

definition ApiMock_init :: ApiMock where
  "ApiMock_init =
     \<lparr>mock_access_token = None, music_db = [(''123'', True), (''456'', False)],
      mock_failures_geo = False\<rparr>"

definition mock_get_access_token :: "ApiMock \<Rightarrow> string \<Rightarrow> status \<times> ApiMock" where
  "mock_get_access_token self code = (StatusSuccess [], self\<lparr>mock_access_token := Some ''mock_token''\<rparr>)"

definition mock_refresh_access_token :: "ApiMock \<Rightarrow> bool \<times> ApiMock" where
  "mock_refresh_access_token self = (True, self\<lparr>mock_access_token := Some ''mock_refreshed_token''\<rparr>)"

text \<open>
  \<open>MockTikTokAPI.ensure_token\<close> reads the token and nothing else: it calls no other
  method and writes no field, so it is a function of the object alone.
\<close>

definition mock_ensure_token :: "ApiMock \<Rightarrow> status" where
  "mock_ensure_token self =
     (if \<not> truthy (mock_access_token self) then StatusError None (Some ''Not Connected'')
      else StatusSuccess [])"

definition mock_validate_music_id :: "ApiMock \<Rightarrow> string \<Rightarrow> status" where
  "mock_validate_music_id self mid =
     (if startswith mid ''mock_up'' then StatusSuccess []
      else (case map_of (music_db self) mid of
              Some valid \<Rightarrow> if valid then StatusSuccess [] else StatusError None (Some ''Copyright Error'')
            | None \<Rightarrow> StatusError None (Some ''Not Found'')))"

definition mock_submit_ad :: "ApiMock \<Rightarrow> 'p \<Rightarrow> status" where
  "mock_submit_ad self payload =
     (if mock_failures_geo self then StatusError (Some 403) (Some ''Geo Restricted'')
      else StatusSuccess [(''ad_id'', ''mock_ad_id'')])"

definition mock_upload_music :: "ApiMock \<Rightarrow> string \<Rightarrow> string \<Rightarrow> status" where
  \<comment> \<open>\<open>hex\<close>: what \<open>secrets.token_hex(4)\<close> returns\<close>
  "mock_upload_music self hex file_name = StatusSuccess [(''music_id'', ''mock_up_'' @ hex)]"

section \<open>src/api_real.py: the live capability\<close>

text \<open>
  The object holds the credential. Everything outside it is the world: the readings
  \<open>time.time()\<close> will give, in order; the answers of the token endpoint and of the ad
  endpoint, in order; and a trace of what the object has done so far (calls of
  \<open>refresh_access_token\<close>, requests sent), which the code does not keep and the
  properties count. Times are seconds. The token file that \<open>save_token\<close> also writes is
  read at construction only and is left out.
\<close>

record RealTikTokAPI =
  access_token :: "string option"
  refresh_token :: "string option"
  expires_at :: real
  advertiser_id :: "string option"

datatype refresh_reply =
    RefreshRaises
  | RefreshRejected
  | RefreshGranted string "string option" "real option"

text \<open>
  \<open>RefreshGranted a r e\<close>: an answer with code 0 whose data holds \<open>access_token\<close> \<open>a\<close>,
  \<open>refresh_token\<close> \<open>r\<close> and \<open>expires_in\<close> \<open>e\<close> (the last two may be absent);
  \<open>RefreshRejected\<close>: an answer with another code; \<open>RefreshRaises\<close>: the request, the
  decoding of the answer or the reading of \<open>access_token\<close> raises.
\<close>

datatype submit_reply =
    SubmitRaises string
  | SubmitCreated string
  | SubmitRefused "int option" "string option"

text \<open>
  \<open>SubmitCreated a\<close>: an answer with code 0 and \<open>data.ad_id\<close> \<open>a\<close>; \<open>SubmitRefused c m\<close>:
  an answer whose code \<open>c\<close> is not 0, with message \<open>m\<close>; \<open>SubmitRaises e\<close>: the request,
  the decoding of the answer or the reading of \<open>data.ad_id\<close> raises, \<open>e\<close> its text.
\<close>

datatype event = RefreshCalled | RefreshRequested | SubmitRequested "string option" | RetryAfterRejection

text \<open>
  \<open>RefreshCalled\<close>: \<open>refresh_access_token\<close> is entered; \<open>RefreshRequested\<close>: it sends its
  request; \<open>SubmitRequested t\<close>: \<open>submit_ad\<close> sends its request with access token \<open>t\<close>;
  \<open>RetryAfterRejection\<close>: \<open>submit_ad\<close> has received an answer with code 401 on its first
  pass and calls \<open>refresh_access_token\<close> for it, to retry if the refresh succeeds. The
  marker tells this call from the calls that \<open>ensure_token\<close> makes in its check before a
  request, and from the call of \<open>submit_ad\<close> after a failed check.
\<close>

record world =
  clock :: "real stream"
  refresh_replies :: "refresh_reply stream"
  submit_replies :: "submit_reply stream"
  trace :: "event list"

definition now :: "world \<Rightarrow> real \<times> world" where
  \<comment> \<open>\<open>time.time()\<close>\<close>
  "now w = (shd (clock w), w\<lparr>clock := stl (clock w)\<rparr>)"

definition log :: "event \<Rightarrow> world \<Rightarrow> world" where
  "log e w = w\<lparr>trace := trace w @ [e]\<rparr>"

definition save_token ::
  "RealTikTokAPI \<Rightarrow> string \<Rightarrow> string option \<Rightarrow> real \<Rightarrow> world \<Rightarrow> RealTikTokAPI \<times> world" where
  "save_token self a r expires_in w =
     (case now w of
        (t, w') \<Rightarrow>
          (self\<lparr>access_token := Some a, refresh_token := r, expires_at := t + expires_in\<rparr>, w'))"

definition refresh_access_token :: "RealTikTokAPI \<Rightarrow> world \<Rightarrow> bool \<times> RealTikTokAPI \<times> world" where
  "refresh_access_token self w =
     (let w0 = log RefreshCalled w
      in if \<not> truthy (refresh_token self) then (False, self, w0)
         else
           (let reply = shd (refresh_replies w0);
                w1 = log RefreshRequested (w0\<lparr>refresh_replies := stl (refresh_replies w0)\<rparr>)
            in case reply of
                 RefreshGranted a r e \<Rightarrow>
                   (case save_token self a r (case e of None \<Rightarrow> 86400 | Some x \<Rightarrow> x) w1 of
                      (self', w2) \<Rightarrow> (True, self', w2))
               | _ \<Rightarrow> (False, self, w1)))"

definition session_expired :: status where
  "session_expired = StatusError (Some 401) (Some ''Session expired. Please reconnect TikTok.'')"

definition refresh_or_expired :: "RealTikTokAPI \<Rightarrow> world \<Rightarrow> status \<times> RealTikTokAPI \<times> world" where
  \<comment> \<open>the second half of \<open>ensure_token\<close>\<close>
  "refresh_or_expired self w =
     (case refresh_access_token self w of
        (ok, self', w') \<Rightarrow> (if ok then StatusSuccess [] else session_expired, self', w'))"

definition ensure_token :: "RealTikTokAPI \<Rightarrow> world \<Rightarrow> status \<times> RealTikTokAPI \<times> world" where
  \<comment> \<open>the clock is read only when there is an access token (\<open>and\<close> is short-circuit)\<close>
  "ensure_token self w =
     (if truthy (access_token self)
      then (case now w of
              (t, w') \<Rightarrow>
                if t < expires_at self - 300 then (StatusSuccess [], self, w')
                else refresh_or_expired self w')
      else refresh_or_expired self w)"

text \<open>
  One pass through the body of the loop of \<open>submit_ad\<close>: \<open>Some r\<close> when the pass returns
  \<open>r\<close>, \<open>None\<close> when it goes on to the next pass (\<open>continue\<close>, or an exception
  swallowed on the first pass).
\<close>

definition submit_attempt ::
  "nat \<Rightarrow> RealTikTokAPI \<Rightarrow> world \<Rightarrow> status option \<times> RealTikTokAPI \<times> world" where
  "submit_attempt attempt self w =
     (case ensure_token self w of
        (auth, self1, w1) \<Rightarrow>
          if is_error auth \<and> attempt = 0
          then (case refresh_access_token self1 w1 of
                  (ok, self2, w2) \<Rightarrow> (if ok then None else Some auth, self2, w2))
          else if is_error auth then (Some auth, self1, w1)
          else
            (let reply = shd (submit_replies w1);
                 w2 = log (SubmitRequested (access_token self1))
                        (w1\<lparr>submit_replies := stl (submit_replies w1)\<rparr>)
             in case reply of
                  SubmitCreated a \<Rightarrow> (Some (StatusSuccess [(''ad_id'', a)]), self1, w2)
                | SubmitRefused code msg \<Rightarrow>
                    if code = Some 401 \<and> attempt = 0
                    then (case refresh_access_token self1 (log RetryAfterRejection w2) of
                            (ok, self3, w3) \<Rightarrow>
                              (if ok then None else Some (StatusError code msg), self3, w3))
                    else (Some (StatusError code msg), self1, w2)
                | SubmitRaises e \<Rightarrow>
                    (if attempt = 1 then Some (StatusError None (Some e)) else None, self1, w2)))"

fun submit_loop :: "nat list \<Rightarrow> RealTikTokAPI \<Rightarrow> world \<Rightarrow> status \<times> RealTikTokAPI \<times> world" where
  "submit_loop [] self w = (StatusError None (Some ''Max retries exceeded''), self, w)"
| "submit_loop (attempt # rest) self w =
     (case submit_attempt attempt self w of
        (Some r, self', w') \<Rightarrow> (r, self', w')
      | (None, self', w') \<Rightarrow> submit_loop rest self' w')"

definition submit_ad :: "RealTikTokAPI \<Rightarrow> 'p \<Rightarrow> world \<Rightarrow> status \<times> RealTikTokAPI \<times> world" where
  \<comment> \<open>\<open>for attempt in range(2)\<close>\<close>
  "submit_ad self payload w = submit_loop [0, 1] self w"

definition refresh_attempts :: "world \<Rightarrow> nat" where
  "refresh_attempts w = count_list (trace w) RefreshCalled"

definition is_submit :: "event \<Rightarrow> bool" where
  "is_submit e = (case e of SubmitRequested _ \<Rightarrow> True | _ \<Rightarrow> False)"

definition submit_attempts :: "world \<Rightarrow> nat" where
  "submit_attempts w = length (filter is_submit (trace w))"



section \<open>src/agent.py and src/schemas.py: the second agent\<close>

datatype schema_error = Required string | WrongType string string | NotInEnum string

definition type_string :: "string \<Rightarrow> json \<Rightarrow> schema_error list" where
  "type_string name v = (case v of JStr _ \<Rightarrow> [] | _ \<Rightarrow> [WrongType name ''string''])"

definition type_object :: "string \<Rightarrow> json \<Rightarrow> schema_error list" where
  "type_object name v = (case v of JObj _ \<Rightarrow> [] | _ \<Rightarrow> [WrongType name ''object''])"

definition required :: "(string \<times> json) list \<Rightarrow> string \<Rightarrow> schema_error list" where
  "required obj k = (case map_of obj k of None \<Rightarrow> [Required k] | Some _ \<Rightarrow> [])"

definition property :: "(string \<times> json) list \<Rightarrow> string \<Rightarrow> (json \<Rightarrow> schema_error list) \<Rightarrow> schema_error list" where
  \<comment> \<open>a property is checked only when its key is there\<close>
  "property obj k check = (case map_of obj k of None \<Rightarrow> [] | Some v \<Rightarrow> check v)"

definition action_enum :: "json \<Rightarrow> schema_error list" where
  "action_enum v =
     (if v \<in> set [JStr ''NONE'', JStr ''VALIDATE_MUSIC'', JStr ''SUBMIT_AD'', JStr ''UPLOAD_MUSIC'']
      then [] else [NotInEnum ''action''])"

definition updated_ad_state_schema :: "json \<Rightarrow> schema_error list" where
  "updated_ad_state_schema v =
     (case v of
        JObj st \<Rightarrow>
          property st ''campaign_name'' (type_string ''campaign_name'')
          @ property st ''objective'' (type_string ''objective'')
          @ property st ''creative_details'' (type_object ''creative_details'')
      | _ \<Rightarrow> [WrongType ''updated_ad_state'' ''object''])"

definition AGENT_OUTPUT_SCHEMA :: "json \<Rightarrow> schema_error list" where
  \<comment> \<open>the errors of an instance against the schema; none when it conforms\<close>
  "AGENT_OUTPUT_SCHEMA data =
     (case data of
        JObj obj \<Rightarrow>
          concat (map (required obj) [''thought'', ''message_to_user'', ''action'', ''updated_ad_state''])
          @ property obj ''thought'' (type_string ''thought'')
          @ property obj ''message_to_user'' (type_string ''message_to_user'')
          @ property obj ''action'' (\<lambda>v. type_string ''action'' v @ action_enum v)
          @ property obj ''action_params'' (type_object ''action_params'')
          @ property obj ''updated_ad_state'' updated_ad_state_schema
      | _ \<Rightarrow> [WrongType [] ''object''])"

text \<open>
  What one call of the model gives the agent before the schema check: the decoded JSON
  of its (cleaned) text, or the exception that the call, the text extraction or
  \<open>json.loads\<close> raised, as its text. That exception is never a schema
  \<open>ValidationError\<close>.
\<close>

datatype model_output = ModelError string | ModelJson json

record AdAgent =
  history :: "(string \<times> json) list"
  collected_data :: "(string \<times> json) list"

definition AdAgent_init :: AdAgent where
  "AdAgent_init = \<lparr>history = [], collected_data = []\<rparr>"

fun agent_merge :: "(string \<times> 'v) list \<Rightarrow> (string \<times> 'v) list \<Rightarrow> (string \<times> 'v) list" where
  \<comment> \<open>\<open>for k, v in new_state.items(): self.collected_data[k] = v\<close>\<close>
  "agent_merge collected [] = collected"
| "agent_merge collected ((k, v) # items) = agent_merge (AList.update k v collected) items"

definition new_state :: "json \<Rightarrow> (string \<times> json) list" where
  \<comment> \<open>\<open>data.get("updated_ad_state", {})\<close> of an instance that passed the schema\<close>
  "new_state data =
     (case data of
        JObj obj \<Rightarrow> (case map_of obj ''updated_ad_state'' of Some (JObj st) \<Rightarrow> st | _ \<Rightarrow> [])
      | _ \<Rightarrow> [])"

definition fail :: "string \<Rightarrow> json" where
  "fail msg = JObj [(''thought'', JStr ''Fail''), (''message_to_user'', JStr msg), (''action'', JStr ''NONE'')]"

definition build_context :: "bool \<Rightarrow> string option \<Rightarrow> string" where
  \<comment> \<open>\<open>auth\<close>: whether \<open>self.api_client.access_token\<close> is set\<close>
  "build_context auth system_context =
     ''Auth status: '' @ (if auth then ''OK'' else ''None'')
     @ (if truthy system_context then '' | System Msg: '' @ the system_context else [])"

definition retry_context :: "string \<Rightarrow> string" where
  \<comment> \<open>the system context of the retry, \<open>e\<close> the text of the schema error\<close>
  "retry_context e = ''JSON Schema Error: '' @ e @ ''. Retry with valid JSON.''"

text \<open>
  \<open>AdAgent.process_message\<close>. \<open>outs\<close>: the outputs the model will give, in order;
  \<open>schema_str\<close>: the library's \<open>str\<close> of a schema \<open>ValidationError\<close>. The result also
  lists the context line of every call of the model that was made.
\<close>

function agent_process_message ::
  "AdAgent \<Rightarrow> bool \<Rightarrow> (schema_error list \<Rightarrow> string) \<Rightarrow> string \<Rightarrow> string option \<Rightarrow> bool
   \<Rightarrow> model_output stream \<Rightarrow> json \<times> AdAgent \<times> model_output stream \<times> string list" where
  "agent_process_message self auth schema_str user_input system_context retry outs =
     (let context = build_context auth system_context
      in case shd outs of
           ModelError e \<Rightarrow> (fail (''System Error: '' @ e), self, stl outs, [context])
         | ModelJson data \<Rightarrow>
             (if AGENT_OUTPUT_SCHEMA data = []
              then (data,
                    self\<lparr>collected_data := agent_merge (collected_data self) (new_state data),
                         history := history self @ [(user_input, data)]\<rparr>,
                    stl outs, [context])
              else if \<not> retry
              then (case agent_process_message self auth schema_str user_input
                           (Some (retry_context (schema_str (AGENT_OUTPUT_SCHEMA data))))
                           True (stl outs) of
                      (r, self', outs', contexts) \<Rightarrow> (r, self', outs', context # contexts))
              else (fail ''System Error: Output Validation Failed.'', self, stl outs, [context])))"
  by pat_completeness auto
termination
  by (relation "measure (\<lambda>(self, auth, schema_str, user_input, system_context, retry, outs). if retry then 0 else 1)") auto

declare agent_process_message.simps [simp del]

section \<open>Inputs used in the evaluations below\<close>

definition conversions_no_music :: pydict where
  \<comment> \<open>a complete Conversions campaign for which no music was ever given\<close>
  "conversions_no_music =
     [(''campaign_name'', PStr ''Summer Sale''), (''objective'', PStr ''Conversions''),
      (''ad_text'', PStr ''Buy now''), (''cta'', PStr ''Shop Now'')]"

definition long_ad_text :: pydict where
  \<comment> \<open>the arguments of \<open>test_ad_text_max_length\<close> in test.py\<close>
  "long_ad_text =
     [(''campaign_name'', PStr ''Test Campaign''), (''objective'', PStr ''Traffic''),
      (''ad_text'', PStr (replicate 101 CHR ''A'')), (''cta'', PStr ''Click'')]"

definition submit_response :: response where
  \<comment> \<open>an answer of the client that asks for submission and proposes no change of state\<close>
  "submit_response =
     \<lparr>resp_message = Some (JStr ''Submitting your ad now.''), resp_reasoning = Some ''All fields collected'',
      resp_state = Some [], resp_action = Some (JStr ''submit''), resp_errors = Some []\<rparr>"


definition no_message_response :: response where
  \<comment> \<open>decoded arguments \<open>{"action": "collect"}\<close>\<close>
  "no_message_response =
     \<lparr>resp_message = None, resp_reasoning = None, resp_state = None,
      resp_action = Some (JStr ''collect''), resp_errors = None\<rparr>"

definition bad_action_response :: response where
  \<comment> \<open>decoded arguments \<open>{"message": "Done.", "action": "finish"}\<close>, an action outside the enum\<close>
  "bad_action_response =
     \<lparr>resp_message = Some (JStr ''Done.''), resp_reasoning = None, resp_state = None,
      resp_action = Some (JStr ''finish''), resp_errors = None\<rparr>"

definition no_render :: "(string \<times> violation) list \<Rightarrow> string" where
  \<comment> \<open>a rendering of validation errors that says nothing\<close>
  "no_render errors = []"

definition unreachable :: api_outcome where
  "unreachable = ApiRaises (PyException ''connection refused'')"

definition granted :: "refresh_reply \<Rightarrow> bool" where
  \<comment> \<open>the token endpoint answers with code 0 and an access token\<close>
  "granted reply = (case reply of RefreshGranted _ _ _ \<Rightarrow> True | _ \<Rightarrow> False)"

definition quiet_world :: world where
  \<comment> \<open>the clock stands at 1000, the token endpoint rejects, the ad endpoint is unreachable\<close>
  "quiet_world =
     \<lparr>clock = sconst 1000, refresh_replies = sconst RefreshRejected,
      submit_replies = sconst (SubmitRaises ''connection refused''), trace = []\<rparr>"

definition granting_world :: world where
  \<comment> \<open>the clock stands at 1000 and the token endpoint grants a token for 3600 seconds\<close>
  "granting_world =
     \<lparr>clock = sconst 1000, refresh_replies = sconst (RefreshGranted ''new'' (Some ''ref'') (Some 3600)),
      submit_replies = sconst (SubmitRaises ''connection refused''), trace = []\<rparr>"

definition rejected_once_world :: world where
  \<comment> \<open>the clock stands at 2000; the ad endpoint answers 401 once, then creates the ad;
      the token endpoint grants a token (no \<open>expires_in\<close>, so 86400 seconds)\<close>
  "rejected_once_world =
     \<lparr>clock = sconst 2000, refresh_replies = sconst (RefreshGranted ''new'' (Some ''ref'') None),
      submit_replies = SubmitRefused (Some 401) (Some ''Unauthorized'') ## sconst (SubmitCreated ''AD1''),
      trace = []\<rparr>"

definition fresh_api :: RealTikTokAPI where
  "fresh_api =
     \<lparr>access_token = Some ''tok'', refresh_token = Some ''ref'', expires_at = 90000,
      advertiser_id = Some ''adv''\<rparr>"

definition stale_api :: RealTikTokAPI where
  \<comment> \<open>a credential inside the five-minute buffer at time 1000, expired at time 2000\<close>
  "stale_api =
     \<lparr>access_token = Some ''old'', refresh_token = Some ''ref'', expires_at = 1200,
      advertiser_id = Some ''adv''\<rparr>"

definition no_description :: "schema_error list \<Rightarrow> string" where
  \<comment> \<open>a rendering of schema errors that says nothing\<close>
  "no_description errors = []"


section \<open>Facts about the string functions\<close>

lemma str_nat_digit: "n < 10 \<Longrightarrow> str_nat n = [digit_char n]"
  by (simp add: str_nat.simps)

lemma str_nat_more: "\<not> n < 10 \<Longrightarrow> str_nat n = str_nat (n div 10) @ [digit_char (n mod 10)]"
  by (subst str_nat.simps) simp

lemma startswith_append: "startswith (p @ s) p"
  by (simp add: startswith_def)

section \<open>The error interpreter\<close>

lemma ERRORS_keys:
  "map fst ERRORS =
     [''INVALID_TOKEN'', ''INSUFFICIENT_PERMISSIONS'', ''MUSIC_NOT_FOUND'', ''INVALID_MUSIC_ID'',
      ''GEO_RESTRICTED'']"
  by (simp add: ERRORS_def)

lemma interpret_unmapped:
  assumes "code \<notin> set (map fst ERRORS)"
  shows "ErrorInterpreter_interpret code =
           \<lparr>explanation = ''An unexpected error occurred: '' @ code,
            action = ''Please try again. If the issue persists, contact support.'',
            retryable = True, severity = ''medium''\<rparr>"
proof -
  from assms have "map_of ERRORS code = None"
    by (simp add: map_of_eq_None_iff)
  then show ?thesis
    by (simp add: ErrorInterpreter_interpret_def)
qed

text \<open>
  Claim C5. \<open>ErrorInterpreter.interpret\<close> is a total function from error codes to records
  of explanation, action, retryable flag and severity. The five codes of the table get
  their row: \<open>INVALID_TOKEN\<close> is retryable with severity medium, \<open>INSUFFICIENT_PERMISSIONS\<close>
  is not retryable with severity high, \<open>MUSIC_NOT_FOUND\<close> is not retryable with severity
  low, \<open>INVALID_MUSIC_ID\<close> is not retryable with severity medium, \<open>GEO_RESTRICTED\<close> is not
  retryable with severity high. Every other code gets the default row: retryable,
  severity medium, and an explanation that ends with the code itself.
\<close>

theorem interpret_table:
  "(retryable (ErrorInterpreter_interpret ''INVALID_TOKEN'')
      \<and> severity (ErrorInterpreter_interpret ''INVALID_TOKEN'') = ''medium'')
   \<and> (\<not> retryable (ErrorInterpreter_interpret ''INSUFFICIENT_PERMISSIONS'')
      \<and> severity (ErrorInterpreter_interpret ''INSUFFICIENT_PERMISSIONS'') = ''high'')
   \<and> (\<not> retryable (ErrorInterpreter_interpret ''MUSIC_NOT_FOUND'')
      \<and> severity (ErrorInterpreter_interpret ''MUSIC_NOT_FOUND'') = ''low'')
   \<and> (\<not> retryable (ErrorInterpreter_interpret ''INVALID_MUSIC_ID'')
      \<and> severity (ErrorInterpreter_interpret ''INVALID_MUSIC_ID'') = ''medium'')
   \<and> (\<not> retryable (ErrorInterpreter_interpret ''GEO_RESTRICTED'')
      \<and> severity (ErrorInterpreter_interpret ''GEO_RESTRICTED'') = ''high'')
   \<and> (\<forall>code. code \<notin> set [''INVALID_TOKEN'', ''INSUFFICIENT_PERMISSIONS'', ''MUSIC_NOT_FOUND'',
                          ''INVALID_MUSIC_ID'', ''GEO_RESTRICTED''] \<longrightarrow>
          ErrorInterpreter_interpret code =
            \<lparr>explanation = ''An unexpected error occurred: '' @ code,
             action = ''Please try again. If the issue persists, contact support.'',
             retryable = True, severity = ''medium''\<rparr>)"
proof -
  have table: "(retryable (ErrorInterpreter_interpret ''INVALID_TOKEN'')
      \<and> severity (ErrorInterpreter_interpret ''INVALID_TOKEN'') = ''medium'')
   \<and> (\<not> retryable (ErrorInterpreter_interpret ''INSUFFICIENT_PERMISSIONS'')
      \<and> severity (ErrorInterpreter_interpret ''INSUFFICIENT_PERMISSIONS'') = ''high'')
   \<and> (\<not> retryable (ErrorInterpreter_interpret ''MUSIC_NOT_FOUND'')
      \<and> severity (ErrorInterpreter_interpret ''MUSIC_NOT_FOUND'') = ''low'')
   \<and> (\<not> retryable (ErrorInterpreter_interpret ''INVALID_MUSIC_ID'')
      \<and> severity (ErrorInterpreter_interpret ''INVALID_MUSIC_ID'') = ''medium'')
   \<and> (\<not> retryable (ErrorInterpreter_interpret ''GEO_RESTRICTED'')
      \<and> severity (ErrorInterpreter_interpret ''GEO_RESTRICTED'') = ''high'')"
    by (simp add: ErrorInterpreter_interpret_def ERRORS_def)
  show ?thesis
    using table interpret_unmapped unfolding ERRORS_keys by blast
qed

theorem interpret_table_witness:
  "ErrorInterpreter_interpret ''UNKNOWN_ERROR_12345'' =
     \<lparr>explanation = ''An unexpected error occurred: UNKNOWN_ERROR_12345'',
      action = ''Please try again. If the issue persists, contact support.'',
      retryable = True, severity = ''medium''\<rparr>"
proof -
  have "''UNKNOWN_ERROR_12345'' \<notin> set [''INVALID_TOKEN'', ''INSUFFICIENT_PERMISSIONS'',
          ''MUSIC_NOT_FOUND'', ''INVALID_MUSIC_ID'', ''GEO_RESTRICTED'']"
    by simp
  with interpret_table show ?thesis
    by simp
qed

section \<open>The simulated platform: upload, then validate\<close>

text \<open>
  Claim C9. With failure injection off, \<open>upload_music\<close> of the simulated platform succeeds
  for every source path and returns a reference \<open>UPLOAD_n\<close> (\<open>n\<close> the number drawn), and
  \<open>validate_music_id\<close> called on that reference right afterwards, on the object as the
  upload left it, succeeds as well. The simulated capability of the second agent has no
  failure injection on these two calls: its \<open>upload_music\<close> returns a reference
  \<open>mock_up_...\<close> which its \<open>validate_music_id\<close> accepts.
\<close>

theorem upload_then_validate:
  "(\<not> simulate_failures self \<longrightarrow>
      fst (upload_music self rnd n path tok) =
        Success [(''music_id'', PStr (''UPLOAD_'' @ str_nat n)),
                 (''title'', PStr (split_last (CHR 0x5C) (split_last CHR ''/'' path))),
                 (''status'', PStr ''ready''), (''duration'', PStr ''30'')]
      \<and> validate_music_id (snd (upload_music self rnd n path tok)) rnd' (''UPLOAD_'' @ str_nat n) tok' =
        Success [(''music_id'', PStr (''UPLOAD_'' @ str_nat n)),
                 (''title'', PStr (''Sample Track '' @ ''UPLOAD_'' @ str_nat n)),
                 (''artist'', PStr ''Mock Artist''), (''duration'', PStr ''30''),
                 (''genre'', PStr ''Pop'')])
   \<and> mock_upload_music m hex file_name = StatusSuccess [(''music_id'', ''mock_up_'' @ hex)]
   \<and> mock_validate_music_id m (''mock_up_'' @ hex) = StatusSuccess []"
proof -
  have a: "startswith (''UPLOAD_'' @ str_nat n) ''UPLOAD_''"
    by (rule startswith_append)
  have b: "startswith (''mock_up_'' @ hex) ''mock_up''"
    by (simp add: startswith_def)
  show ?thesis
    using a b
    by (simp add: upload_music_def validate_music_id_def mock_upload_music_def
          mock_validate_music_id_def Let_def)
qed

theorem upload_then_validate_witness:
  "fst (upload_music (MockTikTokAPI_init False 0.1) 0.5 12345 ''/path/to/track.mp3'' ''token'') =
     Success [(''music_id'', PStr ''UPLOAD_12345''), (''title'', PStr ''track.mp3''),
              (''status'', PStr ''ready''), (''duration'', PStr ''30'')]
   \<and> validate_music_id
        (snd (upload_music (MockTikTokAPI_init False 0.1) 0.5 12345 ''/path/to/track.mp3'' ''token''))
        0.5 ''UPLOAD_12345'' ''token'' =
     Success [(''music_id'', PStr ''UPLOAD_12345''), (''title'', PStr ''Sample Track UPLOAD_12345''),
              (''artist'', PStr ''Mock Artist''), (''duration'', PStr ''30''), (''genre'', PStr ''Pop'')]"
proof -
  have s: "str_nat 12345 = ''12345''"
    by (simp add: str_nat_digit str_nat_more digit_char_def)
  have p: "split_last (CHR 0x5C) (split_last CHR ''/'' ''/path/to/track.mp3'') = ''track.mp3''"
    by (simp add: split_last_def)
  have f: "\<not> simulate_failures (MockTikTokAPI_init False 0.1)"
    by (simp add: MockTikTokAPI_init_def)
  from upload_then_validate
         [of "MockTikTokAPI_init False 0.1" "0.5" 12345 "''/path/to/track.mp3''" "''token''"
             "0.5" "''token''"] f
  show ?thesis
    by (simp add: s p)
qed

section \<open>The conversation manager: the message history and the reply\<close>









section \<open>Merging a state delta\<close>

lemma merge_state_other:
  "(\<forall>v. (k, v) \<in> set delta \<longrightarrow> v = PNone) \<Longrightarrow> map_of (merge_state config delta) k = map_of config k"
proof (induction delta arbitrary: config)
  case Nil
  then show ?case by simp
next
  case (Cons item delta)
  obtain key val where item: "item = (key, val)"
    by (cases item)
  from Cons.prems have rest: "\<forall>v. (k, v) \<in> set delta \<longrightarrow> v = PNone"
    by simp
  from Cons.prems item have here: "key = k \<longrightarrow> val = PNone"
    by simp
  show ?case
    using Cons.IH [OF rest] here by (simp add: item update_conv')
qed

lemma merge_state_absent:
  "k \<notin> fst ` set delta \<Longrightarrow> map_of (merge_state config delta) k = map_of config k"
  by (rule merge_state_other) force

lemma merge_state_written:
  "distinct (map fst delta) \<Longrightarrow> (k, v) \<in> set delta \<Longrightarrow> v \<noteq> PNone
   \<Longrightarrow> map_of (merge_state config delta) k = Some v"
proof (induction delta arbitrary: config)
  case Nil
  then show ?case by simp
next
  case (Cons item delta)
  obtain key val where item: "item = (key, val)"
    by (cases item)
  show ?case
  proof (cases "(k, v) = item")
    case True
    with Cons.prems have absent: "k \<notin> fst ` set delta"
      by force
    have "merge_state config (item # delta) = merge_state (AList.update k v config) delta"
      using True [symmetric] Cons.prems(3) by simp
    then show ?thesis
      using absent by (simp add: merge_state_absent update_conv')
  next
    case False
    with Cons.prems have "(k, v) \<in> set delta" "distinct (map fst delta)"
      by auto
    then show ?thesis
      using Cons.IH Cons.prems(3) by (simp add: item)
  qed
qed

lemma agent_merge_absent:
  "k \<notin> fst ` set items \<Longrightarrow> map_of (agent_merge collected items) k = map_of collected k"
  by (induction items arbitrary: collected) (auto simp: update_conv')

lemma agent_merge_written:
  "distinct (map fst items) \<Longrightarrow> (k, x) \<in> set items \<Longrightarrow> map_of (agent_merge collected items) k = Some x"
proof (induction items arbitrary: collected)
  case Nil
  then show ?case by simp
next
  case (Cons item items)
  show ?case
  proof (cases "(k, x) = item")
    case True
    with Cons.prems have absent: "k \<notin> fst ` set items"
      by force
    have "agent_merge collected (item # items) = agent_merge (AList.update k x collected) items"
      using True [symmetric] by simp
    then show ?thesis
      using absent by (simp add: agent_merge_absent update_conv')
  next
    case False
    with Cons.prems have "(k, x) \<in> set items" "distinct (map fst items)"
      by auto
    then show ?thesis
      using Cons.IH by (cases item) simp
  qed
qed

text \<open>
  Claim C3, as the code has it. In \<open>ConversationManager.process_message\<close> the merge is
  field by field: a key whose entry in the delta is \<open>None\<close>, or which the delta does not
  have, keeps its value, and a key the delta gives a value other than \<open>None\<close> takes
  that value. In \<open>AdAgent.process_message\<close> a key the delta does not have keeps its
  value, and every key the delta has takes the delta's value, whatever it is, \<open>null\<close>
  included.
\<close>

theorem merge_fieldwise:
  "((\<forall>v. (k, v) \<in> set delta \<longrightarrow> v = PNone) \<longrightarrow> map_of (merge_state config delta) k = map_of config k)
   \<and> (distinct (map fst delta) \<and> (k, w) \<in> set delta \<and> w \<noteq> PNone \<longrightarrow>
        map_of (merge_state config delta) k = Some w)
   \<and> (k \<notin> fst ` set items \<longrightarrow> map_of (agent_merge collected items) k = map_of collected k)
   \<and> (distinct (map fst items) \<and> (k, x) \<in> set items \<longrightarrow>
        map_of (agent_merge collected items) k = Some x)"
  using merge_state_other [of k delta config] merge_state_written [of delta k w config]
    agent_merge_absent [of k items collected] agent_merge_written [of items k x collected]
  by blast

theorem merge_fieldwise_witness:
  "map_of (merge_state [(''music_id'', PStr ''X'')] [(''music_id'', PNone), (''cta'', PStr ''Shop Now'')]) ''music_id''
     = Some (PStr ''X'')
   \<and> map_of (merge_state [(''cta'', PStr ''Buy'')] [(''music_id'', PNone), (''cta'', PStr ''Shop Now'')]) ''cta''
     = Some (PStr ''Shop Now'')
   \<and> map_of (agent_merge [(''campaign_name'', JStr ''Summer'')] [(''objective'', JStr ''Traffic'')]) ''campaign_name''
     = Some (JStr ''Summer'')
   \<and> map_of (agent_merge [(''music_id'', JStr ''X'')] [(''music_id'', JNull)]) ''music_id'' = Some JNull"
  using merge_fieldwise [of "''music_id''" "[(''music_id'', PNone), (''cta'', PStr ''Shop Now'')]"
          "[(''music_id'', PStr ''X'')]" PNone "[(''objective'', JStr ''Traffic'')]" "[(''music_id'', JStr ''X'')]" JNull]
    merge_fieldwise [of "''cta''" "[(''music_id'', PNone), (''cta'', PStr ''Shop Now'')]"
          "[(''cta'', PStr ''Buy'')]" "PStr ''Shop Now''" "[(''objective'', JStr ''Traffic'')]" "[(''music_id'', JStr ''X'')]" JNull]
    merge_fieldwise [of "''campaign_name''" "[]" "[]" PNone "[(''objective'', JStr ''Traffic'')]"
          "[(''campaign_name'', JStr ''Summer'')]" JNull]
    merge_fieldwise [of "''music_id''" "[]" "[]" PNone "[(''music_id'', JNull)]" "[(''music_id'', JStr ''X'')]" JNull]
  by simp

text \<open>
  Claim C3 as stated fails for the second agent: an output whose \<open>updated_ad_state\<close> is
  \<open>{"music_id": null}\<close> conforms to the schema, and merging it after \<open>music_id\<close> was
  set to \<open>"X"\<close> leaves \<open>music_id\<close> null.
\<close>

theorem agent_merge_clears_counterexample:
  "AGENT_OUTPUT_SCHEMA
     (JObj [(''thought'', JStr ''user wants no music''), (''message_to_user'', JStr ''OK, no music.''),
            (''action'', JStr ''NONE''), (''updated_ad_state'', JObj [(''music_id'', JNull)])]) = []
   \<and> map_of (agent_merge [(''music_id'', JStr ''X'')]
               (new_state (JObj [(''thought'', JStr ''user wants no music''),
                                 (''message_to_user'', JStr ''OK, no music.''), (''action'', JStr ''NONE''),
                                 (''updated_ad_state'', JObj [(''music_id'', JNull)])])))
        ''music_id'' = Some JNull"
  by (simp add: AGENT_OUTPUT_SCHEMA_def required_def property_def type_string_def type_object_def
        action_enum_def updated_ad_state_schema_def new_state_def)

section \<open>Validation: the music rule, the ad text, submission\<close>

lemma strip_Summer: "strip ''Summer Sale'' = ''Summer Sale''"
  by (simp add: strip_def py_isspace_def)

lemma strip_Test: "strip ''Test Campaign'' = ''Test Campaign''"
  by (simp add: strip_def py_isspace_def)

lemma AdConfig_conversions_no_music:
  "AdConfig_init conversions_no_music =
     Inr \<lparr>campaign_name = ''Summer Sale'', objective = ''Conversions'', ad_text = ''Buy now'',
          cta = ''Shop Now'', music_id = None\<rparr>"
  by (simp add: conversions_no_music_def AdConfig_init_def str_field_def music_field_def validated_def
        validate_campaign_name_def validate_objective_def validate_ad_text_def strip_Summer)

text \<open>
  What the music rule does on a value that is supplied: under Conversions it reports a
  violation exactly when the value is \<open>None\<close> or blank after trimming; a blank value is
  a violation under every objective; under Traffic a supplied \<open>None\<close> passes. A field
  that is not supplied passes under every objective, Conversions included.
\<close>

lemma strip_Nil: "strip [] = []"
  by (simp add: strip_def)

lemma music_rule_supplied:
  "(\<exists>m. music_field (Some ''Conversions'') (Some a) = Inl (ValueError m))
     \<longleftrightarrow> (a = PNone \<or> (\<exists>s. a = PStr s \<and> strip s = []))"
  by (cases a) (auto simp: music_field_def validate_music_logic_def truthy_def strip_Nil)

lemma music_rule_blank:
  "strip s = [] \<Longrightarrow> \<exists>m. music_field obj (Some (PStr s)) = Inl (ValueError m)"
  by (simp add: music_field_def validate_music_logic_def)

lemma music_rule_traffic:
  "music_field (Some ''Traffic'') None = Inr None"
  "music_field (Some ''Traffic'') (Some PNone) = Inr None"
  by (simp_all add: music_field_def validate_music_logic_def)

lemma music_rule_not_supplied:
  "music_field obj None = Inr None"
  by (simp add: music_field_def)

text \<open>
  The ad text: up to 100 characters pass untrimmed; beyond 100 the field's own bound
  rejects the text, and the validator, taken alone, would name the current length.
\<close>

lemma ad_text_boundary:
  "length v \<le> 100 \<Longrightarrow> str_field None (Some 100) validate_ad_text (Some (PStr v)) = Inr v"
  "length v > 100 \<Longrightarrow> str_field None (Some 100) validate_ad_text (Some (PStr v)) = Inl (TooLong 100)"
  "length v > 100 \<Longrightarrow> validate_ad_text v =
     Inl (''Ad text cannot exceed 100 characters (current: '' @ str_nat (length v) @ '')'')"
  by (simp_all add: str_field_def validate_ad_text_def)

text \<open>
  Submission is gated: when the construction of the model raises, \<open>_submit_ad\<close> answers
  with the validation message and calls nothing.
\<close>

lemma cm_submit_ad_blocked:
  "AdConfig_init (ad_config self) = Inl e \<Longrightarrow>
   cm_submit_ad self err_str api = (validation_failed (err_str e), [])"
  by (simp add: cm_submit_ad_def)

lemma submit_turn_blocked:
  assumes "AdConfig_init (ad_config self) = Inl e"
  shows "fst (process_message self user_msg (Inr submit_response) err_str api) =
           JStr (validation_failed (err_str e))"
    and "snd (snd (process_message self user_msg (Inr submit_response) err_str api)) = []"
  using assms
  by (simp_all add: process_message_def process_message_try_def submit_response_def Let_def cm_submit_ad_def)

text \<open>
  Claim C2 at the input where the code departs from it. A Conversions campaign whose
  arguments have no \<open>music_id\<close> key constructs without any violation, with \<open>music_id\<close>
  \<open>None\<close>: the validator that holds the music rule is not run on a field left out. The
  same campaign with \<open>music_id\<close> supplied as \<open>None\<close> is rejected with the message of the
  music rule.
\<close>

theorem conversions_without_music_accepted:
  "AdConfig_init conversions_no_music =
     Inr \<lparr>campaign_name = ''Summer Sale'', objective = ''Conversions'', ad_text = ''Buy now'',
          cta = ''Shop Now'', music_id = None\<rparr>
   \<and> AdConfig_init (conversions_no_music @ [(''music_id'', PNone)]) =
     Inl [(''music_id'',
           ValueError (''Music is REQUIRED when objective is '' @ APOS @ ''Conversions'' @ APOS @ ''. ''
                       @ ''Please provide a music ID or upload custom music.''))]"
  by (simp add: conversions_no_music_def AdConfig_init_def str_field_def music_field_def validated_def
        validate_campaign_name_def validate_objective_def validate_ad_text_def strip_Summer
        validate_music_logic_def truthy_def errs_def)

text \<open>
  Claim C1 at the same input. The manager holds a Conversions campaign without music
  (the merge never stores a \<open>None\<close>, so the key is absent) and the client asks for
  submission: whatever the platform answers, \<open>create_ad\<close> is called, with \<open>music_id\<close>
  \<open>None\<close> in the payload.
\<close>

theorem submit_conversions_without_music_calls_api:
  "snd (snd (process_message (ConversationManager_init\<lparr>ad_config := conversions_no_music\<rparr>)
               ''yes, submit'' (Inr submit_response) err_str api)) =
     [CreateAd [(''campaign_name'', PStr ''Summer Sale''), (''objective'', PStr ''Conversions''),
                (''ad_text'', PStr ''Buy now''), (''cta'', PStr ''Shop Now''), (''music_id'', PNone)]
        ''mock_access_token'']"
  by (simp add: process_message_def process_message_try_def submit_response_def Let_def
        ConversationManager_init_def cm_submit_ad_def AdConfig_conversions_no_music dict_def
        split: prod.splits sum.splits)

text \<open>
  Claim C7 at the input where the code departs from it. An ad text of 101 characters is
  rejected by the \<open>max_length\<close> of the field, which reports the limit and not the length
  of the text; the validator, whose message would name the length 101, is not reached.
\<close>

theorem ad_text_101_library_error:
  "AdConfig_init long_ad_text = Inl [(''ad_text'', TooLong 100)]
   \<and> validate_ad_text (replicate 101 CHR ''A'') = Inl ''Ad text cannot exceed 100 characters (current: 101)''"
proof -
  have s: "str_nat 101 = ''101''"
    by (simp add: str_nat_digit str_nat_more digit_char_def)
  show ?thesis
    by (simp add: long_ad_text_def AdConfig_init_def str_field_def music_field_def validated_def
        validate_campaign_name_def validate_objective_def validate_ad_text_def strip_Test errs_def s)
qed

section \<open>The live capability: the credential check\<close>

lemma now_fields [simp]:
  "fst (now w) = shd (clock w)"
  "trace (snd (now w)) = trace w"
  "refresh_replies (snd (now w)) = refresh_replies w"
  "submit_replies (snd (now w)) = submit_replies w"
  "clock (snd (now w)) = stl (clock w)"
  by (simp_all add: now_def)

lemma refresh_access_token_result:
  "fst (refresh_access_token self w) = (truthy (refresh_token self) \<and> granted (shd (refresh_replies w)))"
  by (simp add: refresh_access_token_def log_def save_token_def now_def granted_def Let_def
           split: refresh_reply.splits)

lemma refresh_access_token_attempts:
  "refresh_attempts (snd (snd (refresh_access_token self w))) = refresh_attempts w + 1"
  by (simp add: refresh_access_token_def log_def save_token_def now_def refresh_attempts_def Let_def
           split: refresh_reply.splits)

lemma refresh_access_token_submits:
  "submit_attempts (snd (snd (refresh_access_token self w))) = submit_attempts w"
  by (simp add: refresh_access_token_def log_def save_token_def now_def submit_attempts_def is_submit_def
        Let_def split: refresh_reply.splits)

lemma refresh_or_expired_facts:
  "fst (refresh_or_expired self w) =
     (if truthy (refresh_token self) \<and> granted (shd (refresh_replies w)) then StatusSuccess [] else session_expired)"
  "refresh_attempts (snd (snd (refresh_or_expired self w))) = refresh_attempts w + 1"
  "submit_attempts (snd (snd (refresh_or_expired self w))) = submit_attempts w"
proof -
  obtain ok self' w' where r: "refresh_access_token self w = (ok, self', w')"
    by (cases "refresh_access_token self w")
  have facts: "ok = (truthy (refresh_token self) \<and> granted (shd (refresh_replies w)))"
    "refresh_attempts w' = refresh_attempts w + 1" "submit_attempts w' = submit_attempts w"
    using refresh_access_token_result [of self w] refresh_access_token_attempts [of self w]
      refresh_access_token_submits [of self w] r
    by simp_all
  show "fst (refresh_or_expired self w) =
     (if truthy (refresh_token self) \<and> granted (shd (refresh_replies w)) then StatusSuccess [] else session_expired)"
    using facts(1) by (simp add: refresh_or_expired_def r)
  show "refresh_attempts (snd (snd (refresh_or_expired self w))) = refresh_attempts w + 1"
    using facts(2) by (simp add: refresh_or_expired_def r)
  show "submit_attempts (snd (snd (refresh_or_expired self w))) = submit_attempts w"
    using facts(3) by (simp add: refresh_or_expired_def r)
qed

lemma attempts_clock:
  "refresh_attempts (w\<lparr>clock := c\<rparr>) = refresh_attempts w"
  "submit_attempts (w\<lparr>clock := c\<rparr>) = submit_attempts w"
  by (simp_all add: refresh_attempts_def submit_attempts_def)

lemma ensure_token_fresh:
  assumes "truthy (access_token self)" "shd (clock w) < expires_at self - 300"
  shows "ensure_token self w = (StatusSuccess [], self, w\<lparr>clock := stl (clock w)\<rparr>)"
  using assms by (simp add: ensure_token_def now_def)

lemma ensure_token_stale:
  assumes "\<not> (truthy (access_token self) \<and> shd (clock w) < expires_at self - 300)"
  shows "refresh_attempts (snd (snd (ensure_token self w))) = refresh_attempts w + 1"
    and "fst (ensure_token self w) =
         (if truthy (refresh_token self) \<and> granted (shd (refresh_replies w)) then StatusSuccess []
          else session_expired)"
    and "submit_attempts (snd (snd (ensure_token self w))) = submit_attempts w"
  using assms
  by (simp_all add: ensure_token_def now_def refresh_or_expired_facts attempts_clock)

text \<open>
  Claim C6, as the code has it. The live \<open>ensure_token\<close>: when there is an access token
  and the clock reads more than 300 seconds before \<open>expires_at\<close>, it returns success,
  leaves the object as it was and does nothing to the world but read the clock.
  Otherwise it calls \<open>refresh_access_token\<close> exactly once and returns success if that
  refresh succeeds (there is a refresh token and the token endpoint grants a token), and
  the failure \<open>Session expired\<close> with code 401 if it does not. The simulated
  \<open>ensure_token\<close> knows no expiry and no refresh: it returns success when a token is set
  and the failure \<open>Not Connected\<close> when none is.
\<close>

theorem ensure_token_contract:
  "(truthy (access_token self) \<and> shd (clock w) < expires_at self - 300 \<longrightarrow>
      ensure_token self w = (StatusSuccess [], self, w\<lparr>clock := stl (clock w)\<rparr>))
   \<and> (\<not> (truthy (access_token self) \<and> shd (clock w) < expires_at self - 300) \<longrightarrow>
        refresh_attempts (snd (snd (ensure_token self w))) = refresh_attempts w + 1
      \<and> fst (ensure_token self w) =
          (if truthy (refresh_token self) \<and> granted (shd (refresh_replies w)) then StatusSuccess []
           else session_expired))
   \<and> mock_ensure_token m =
       (if truthy (mock_access_token m) then StatusSuccess [] else StatusError None (Some ''Not Connected''))"
  using ensure_token_fresh [of self w] ensure_token_stale(1,2) [of self w]
  by (simp add: mock_ensure_token_def)

theorem ensure_token_contract_witness:
  "ensure_token fresh_api quiet_world = (StatusSuccess [], fresh_api, quiet_world)
   \<and> fst (ensure_token stale_api quiet_world) = session_expired
   \<and> refresh_attempts (snd (snd (ensure_token stale_api quiet_world))) = 1
   \<and> fst (ensure_token stale_api granting_world) = StatusSuccess []
   \<and> refresh_attempts (snd (snd (ensure_token stale_api granting_world))) = 1"
proof -
  have f: "truthy (access_token fresh_api) \<and> shd (clock quiet_world) < expires_at fresh_api - 300"
    by (simp add: fresh_api_def quiet_world_def truthy_def)
  have s1: "\<not> (truthy (access_token stale_api) \<and> shd (clock quiet_world) < expires_at stale_api - 300)"
    by (simp add: stale_api_def quiet_world_def truthy_def)
  have s2: "\<not> (truthy (access_token stale_api) \<and> shd (clock granting_world) < expires_at stale_api - 300)"
    by (simp add: stale_api_def granting_world_def truthy_def)
  have q: "quiet_world\<lparr>clock := stl (clock quiet_world)\<rparr> = quiet_world"
    by (simp add: quiet_world_def)
  have g: "truthy (refresh_token stale_api)" "granted (shd (refresh_replies granting_world))"
    "\<not> granted (shd (refresh_replies quiet_world))"
    "refresh_attempts quiet_world = 0" "refresh_attempts granting_world = 0"
    by (simp_all add: stale_api_def granting_world_def quiet_world_def truthy_def granted_def refresh_attempts_def)
  show ?thesis
    using ensure_token_contract [of fresh_api quiet_world] ensure_token_contract [of stale_api quiet_world]
      ensure_token_contract [of stale_api granting_world] f s1 s2 g
    by (simp add: q)
qed

text \<open>
  Claim C6 as stated fails for the simulated capability: with no token set its
  \<open>ensure_token\<close> returns a failure, although a refresh, had it been attempted, would
  have succeeded.
\<close>

theorem mock_ensure_token_counterexample:
  "mock_ensure_token ApiMock_init = StatusError None (Some ''Not Connected'')
   \<and> mock_refresh_access_token ApiMock_init = (True, ApiMock_init\<lparr>mock_access_token := Some ''mock_refreshed_token''\<rparr>)"
  by (simp add: mock_ensure_token_def ApiMock_init_def truthy_def mock_refresh_access_token_def)

section \<open>The live capability: submission with one retry\<close>


lemma refresh_access_token_replies:
  "submit_replies (snd (snd (refresh_access_token self w))) = submit_replies w"
  by (simp add: refresh_access_token_def log_def save_token_def now_def Let_def
           split: refresh_reply.splits)













text \<open>
  The run with a credential that is stale at the start, in full: the check before the
  first request refreshes the credential, the request is rejected, \<open>submit_ad\<close> refreshes
  and retries once, and the second request creates the ad.
\<close>

lemma stale_start_trace:
  "trace (snd (snd (submit_ad stale_api () rejected_once_world))) =
     [RefreshCalled, RefreshRequested, SubmitRequested (Some ''new''), RetryAfterRejection,
      RefreshCalled, RefreshRequested, SubmitRequested (Some ''new'')]"
  by (simp add: submit_ad_def submit_attempt_def ensure_token_def refresh_or_expired_def
        refresh_access_token_def save_token_def now_def log_def is_error_def Let_def truthy_def
        stale_api_def rejected_once_world_def)

section \<open>Failures of the language model\<close>

lemma agent_model_error:
  "shd outs = ModelError e \<Longrightarrow>
   agent_process_message self auth schema_str user_input system_context retry outs =
     (fail (''System Error: '' @ e), self, stl outs, [build_context auth system_context])"
  by (subst agent_process_message.simps) (simp add: Let_def)

lemma agent_valid:
  "shd outs = ModelJson data \<Longrightarrow> AGENT_OUTPUT_SCHEMA data = [] \<Longrightarrow>
   agent_process_message self auth schema_str user_input system_context retry outs =
     (data,
      self\<lparr>collected_data := agent_merge (collected_data self) (new_state data),
           history := history self @ [(user_input, data)]\<rparr>,
      stl outs, [build_context auth system_context])"
  by (subst agent_process_message.simps) (simp add: Let_def)

lemma agent_invalid_on_retry:
  "shd outs = ModelJson data \<Longrightarrow> AGENT_OUTPUT_SCHEMA data \<noteq> [] \<Longrightarrow>
   agent_process_message self auth schema_str user_input system_context True outs =
     (fail ''System Error: Output Validation Failed.'', self, stl outs, [build_context auth system_context])"
  by (subst agent_process_message.simps) (simp add: Let_def)

lemma agent_invalid_first:
  "shd outs = ModelJson data \<Longrightarrow> AGENT_OUTPUT_SCHEMA data \<noteq> [] \<Longrightarrow>
   agent_process_message self auth schema_str user_input system_context False outs =
     (case agent_process_message self auth schema_str user_input
             (Some (retry_context (schema_str (AGENT_OUTPUT_SCHEMA data))))
             True (stl outs) of
        (r, self', outs', contexts) \<Rightarrow> (r, self', outs', build_context auth system_context # contexts))"
  by (subst agent_process_message.simps) (simp add: Let_def)

lemma agent_retry_contexts:
  "snd (snd (snd (agent_process_message self auth schema_str user_input system_context True outs))) =
     [build_context auth system_context]"
proof (cases "shd outs")
  case (ModelError e)
  then show ?thesis
    by (simp add: agent_model_error)
next
  case (ModelJson data)
  then show ?thesis
    by (cases "AGENT_OUTPUT_SCHEMA data = []") (simp_all add: agent_valid agent_invalid_on_retry)
qed

lemma agent_invalid_first_contexts:
  assumes "shd outs = ModelJson data" "AGENT_OUTPUT_SCHEMA data \<noteq> []"
  shows "snd (snd (snd (agent_process_message self auth schema_str user_input system_context False outs))) =
     [build_context auth system_context,
      build_context auth (Some (retry_context (schema_str (AGENT_OUTPUT_SCHEMA data))))]"
proof -
  let ?sc = "Some (retry_context (schema_str (AGENT_OUTPUT_SCHEMA data)))"
  obtain r self' outs' contexts where
    t: "agent_process_message self auth schema_str user_input ?sc True (stl outs) = (r, self', outs', contexts)"
    by (cases "agent_process_message self auth schema_str user_input ?sc True (stl outs)")
  have "contexts = [build_context auth ?sc]"
    using agent_retry_contexts [of self auth schema_str user_input ?sc "stl outs"] t by simp
  then show ?thesis
    by (simp add: agent_invalid_first [OF assms] t)
qed

lemma agent_invalid_twice:
  assumes "shd outs = ModelJson data" "AGENT_OUTPUT_SCHEMA data \<noteq> []"
    and "shd (stl outs) = ModelJson data2" "AGENT_OUTPUT_SCHEMA data2 \<noteq> []"
  shows "fst (agent_process_message self auth schema_str user_input system_context False outs) =
           fail ''System Error: Output Validation Failed.''"
    and "fst (snd (agent_process_message self auth schema_str user_input system_context False outs)) = self"
  by (simp_all add: agent_invalid_first [OF assms(1,2)] agent_invalid_on_retry [OF assms(3,4)])

lemma get_response_failure_turn:
  "process_message self user_msg (Inr (get_response (Inl e) msgs (ad_config self))) err_str api =
     (JStr (''I apologize, but I encountered an error: '' @ str_exn e @ ''. Let's try again.''),
      fst (snd (process_message self user_msg (Inr (get_response (Inl e) msgs (ad_config self))) err_str api)),
      [])"
  by (simp add: process_message_def process_message_try_def get_response_def Let_def)

lemma get_response_unchecked:
  "resp_message (get_response (Inr result) msgs context) = resp_message result"
  "resp_action (get_response (Inr result) msgs context) = resp_action result"
  by (simp_all add: get_response_def)

lemma missing_message_turn:
  assumes "resp_message result = None"
  shows "fst (process_message cm user_msg (Inr (get_response (Inr result) msgs context)) err_str api) =
           JStr (''I apologize, but I encountered an error: '' @ APOS @ ''message'' @ APOS
                 @ ''. Could you please try again?'')"
    and "snd (snd (process_message cm user_msg (Inr (get_response (Inr result) msgs context)) err_str api)) = []"
  using assms
  by (simp_all add: process_message_def process_message_try_def get_response_unchecked str_exn_def Let_def)

lemma unknown_action_turn:
  assumes "resp_message result = Some m" "resp_action result = Some a"
    and "a \<noteq> JStr ''validate_music''" "a \<noteq> JStr ''upload_music''" "a \<noteq> JStr ''submit''"
  shows "fst (process_message cm user_msg (Inr (get_response (Inr result) msgs context)) err_str api) = m"
    and "snd (snd (process_message cm user_msg (Inr (get_response (Inr result) msgs context)) err_str api)) = []"
  using assms
  by (simp_all add: process_message_def process_message_try_def get_response_unchecked Let_def)

text \<open>
  Claim C8, as the code has it. In \<open>AdAgent.process_message\<close>, an output that decodes
  but violates the schema leads to exactly one more call of the model, whose context
  carries the description of the schema error; if the second output violates the schema
  too, the result is the fixed fallback (\<open>System Error: Output Validation Failed.\<close>,
  action \<open>NONE\<close>). An output that cannot be obtained or decoded is not retried: the
  result is at once a fallback whose message carries the text of the error, with action
  \<open>NONE\<close>, after one call of the model.

  \<open>LLMClient.get_response\<close> calls the model once, never retries and checks nothing. When
  the call or the decoding fails, it returns an apology that carries the text of the
  error, with action \<open>collect\<close>, and the conversation manager replies with that apology.
  Decoded arguments that violate the function schema are used as they are, message and
  action unchanged: when the message is missing, the manager replies with its own
  apology for the missing key and calls nothing; when the action is none of
  \<open>validate_music\<close>, \<open>upload_music\<close>, \<open>submit\<close>, the manager treats it as \<open>collect\<close>,
  replies with the message of the model and calls nothing.

  All of these are values returned; no exception leaves any of the three functions.
\<close>

theorem collaborator_failure_handling:
  "(shd outs = ModelJson data \<and> AGENT_OUTPUT_SCHEMA data \<noteq> [] \<longrightarrow>
      snd (snd (snd (agent_process_message self auth schema_str user_input system_context False outs))) =
        [build_context auth system_context,
         build_context auth
           (Some (retry_context (schema_str (AGENT_OUTPUT_SCHEMA data))))]
      \<and> (shd (stl outs) = ModelJson data2 \<and> AGENT_OUTPUT_SCHEMA data2 \<noteq> [] \<longrightarrow>
            fst (agent_process_message self auth schema_str user_input system_context False outs) =
              fail ''System Error: Output Validation Failed.''))
   \<and> (shd outs = ModelError e \<longrightarrow>
        agent_process_message self auth schema_str user_input system_context False outs =
          (fail (''System Error: '' @ e), self, stl outs, [build_context auth system_context]))
   \<and> resp_message (get_response (Inl x) msgs context) =
        Some (JStr (''I apologize, but I encountered an error: '' @ str_exn x @ ''. Let's try again.''))
   \<and> resp_action (get_response (Inl x) msgs context) = Some (JStr ''collect'')
   \<and> fst (process_message cm user_msg (Inr (get_response (Inl x) msgs (ad_config cm))) err_str api) =
        JStr (''I apologize, but I encountered an error: '' @ str_exn x @ ''. Let's try again.'')
   \<and> resp_message (get_response (Inr result) msgs context) = resp_message result
   \<and> resp_action (get_response (Inr result) msgs context) = resp_action result
   \<and> (resp_message result = None \<longrightarrow>
        fst (process_message cm user_msg (Inr (get_response (Inr result) msgs (ad_config cm))) err_str api) =
          JStr (''I apologize, but I encountered an error: '' @ APOS @ ''message'' @ APOS
                @ ''. Could you please try again?'')
        \<and> snd (snd (process_message cm user_msg (Inr (get_response (Inr result) msgs (ad_config cm)))
                       err_str api)) = [])
   \<and> (resp_message result = Some m \<and> resp_action result = Some a
        \<and> a \<noteq> JStr ''validate_music'' \<and> a \<noteq> JStr ''upload_music'' \<and> a \<noteq> JStr ''submit'' \<longrightarrow>
        fst (process_message cm user_msg (Inr (get_response (Inr result) msgs (ad_config cm))) err_str api) = m
        \<and> snd (snd (process_message cm user_msg (Inr (get_response (Inr result) msgs (ad_config cm)))
                       err_str api)) = [])"
proof -
  have a: "shd outs = ModelJson data \<and> AGENT_OUTPUT_SCHEMA data \<noteq> [] \<longrightarrow>
      snd (snd (snd (agent_process_message self auth schema_str user_input system_context False outs))) =
        [build_context auth system_context,
         build_context auth
           (Some (retry_context (schema_str (AGENT_OUTPUT_SCHEMA data))))]
      \<and> (shd (stl outs) = ModelJson data2 \<and> AGENT_OUTPUT_SCHEMA data2 \<noteq> [] \<longrightarrow>
            fst (agent_process_message self auth schema_str user_input system_context False outs) =
              fail ''System Error: Output Validation Failed.'')"
    using agent_invalid_first_contexts agent_invalid_twice(1) by blast
  have b: "shd outs = ModelError e \<longrightarrow>
        agent_process_message self auth schema_str user_input system_context False outs =
          (fail (''System Error: '' @ e), self, stl outs, [build_context auth system_context])"
    using agent_model_error by blast
  have c: "resp_message (get_response (Inl x) msgs context) =
        Some (JStr (''I apologize, but I encountered an error: '' @ str_exn x @ ''. Let's try again.''))"
    "resp_action (get_response (Inl x) msgs context) = Some (JStr ''collect'')"
    by (simp_all add: get_response_def)
  have d: "fst (process_message cm user_msg (Inr (get_response (Inl x) msgs (ad_config cm))) err_str api) =
        JStr (''I apologize, but I encountered an error: '' @ str_exn x @ ''. Let's try again.'')"
    by (subst get_response_failure_turn) simp
  note f = get_response_unchecked [of result msgs "context"]
  have g: "resp_message result = None \<longrightarrow>
        fst (process_message cm user_msg (Inr (get_response (Inr result) msgs (ad_config cm))) err_str api) =
          JStr (''I apologize, but I encountered an error: '' @ APOS @ ''message'' @ APOS
                @ ''. Could you please try again?'')
        \<and> snd (snd (process_message cm user_msg (Inr (get_response (Inr result) msgs (ad_config cm)))
                       err_str api)) = []"
    using missing_message_turn [of result cm user_msg msgs "ad_config cm" err_str api] by blast
  have h: "resp_message result = Some m \<and> resp_action result = Some a
        \<and> a \<noteq> JStr ''validate_music'' \<and> a \<noteq> JStr ''upload_music'' \<and> a \<noteq> JStr ''submit'' \<longrightarrow>
        fst (process_message cm user_msg (Inr (get_response (Inr result) msgs (ad_config cm))) err_str api) = m
        \<and> snd (snd (process_message cm user_msg (Inr (get_response (Inr result) msgs (ad_config cm)))
                       err_str api)) = []"
    using unknown_action_turn [of result m a cm user_msg msgs "ad_config cm" err_str api] by blast
  from a b c d f g h show ?thesis
    by blast
qed

theorem collaborator_failure_handling_witness:
  "snd (snd (snd (agent_process_message AdAgent_init True no_description ''hello'' None False
                    (ModelJson (JObj []) ## ModelJson JNull ## sconst (ModelError ''down''))))) =
     [''Auth status: OK'', ''Auth status: OK | System Msg: JSON Schema Error: . Retry with valid JSON.'']
   \<and> fst (agent_process_message AdAgent_init True no_description ''hello'' None False
            (ModelJson (JObj []) ## ModelJson JNull ## sconst (ModelError ''down''))) =
       fail ''System Error: Output Validation Failed.''
   \<and> agent_process_message AdAgent_init True no_description ''hello'' None False (sconst (ModelError ''down'')) =
       (fail ''System Error: down'', AdAgent_init, sconst (ModelError ''down''), [''Auth status: OK''])
   \<and> fst (process_message ConversationManager_init ''hello''
             (Inr (get_response (Inr no_message_response) ([] :: chat_message list)
                     (ad_config ConversationManager_init)))
             no_render unreachable) =
       JStr (''I apologize, but I encountered an error: '' @ APOS @ ''message'' @ APOS
             @ ''. Could you please try again?'')
   \<and> snd (snd (process_message ConversationManager_init ''hello''
                  (Inr (get_response (Inr no_message_response) ([] :: chat_message list)
                          (ad_config ConversationManager_init)))
                  no_render unreachable)) = []
   \<and> fst (process_message ConversationManager_init ''hello''
             (Inr (get_response (Inr bad_action_response) ([] :: chat_message list)
                     (ad_config ConversationManager_init)))
             no_render unreachable) = JStr ''Done.''
   \<and> snd (snd (process_message ConversationManager_init ''hello''
                  (Inr (get_response (Inr bad_action_response) ([] :: chat_message list)
                          (ad_config ConversationManager_init)))
                  no_render unreachable)) = []"
proof -
  let ?outs = "ModelJson (JObj []) ## ModelJson JNull ## sconst (ModelError ''down'')"
  let ?msgs = "[] :: chat_message list"
  have i: "AGENT_OUTPUT_SCHEMA (JObj []) \<noteq> []" "AGENT_OUTPUT_SCHEMA JNull \<noteq> []"
    by (simp_all add: AGENT_OUTPUT_SCHEMA_def required_def)
  have h: "shd ?outs = ModelJson (JObj [])" "shd (stl ?outs) = ModelJson JNull"
    "shd (sconst (ModelError ''down'')) = ModelError ''down''"
    by simp_all
  have c: "build_context True None = ''Auth status: OK''"
    "build_context True (Some (retry_context (no_description (AGENT_OUTPUT_SCHEMA (JObj []))))) =
      ''Auth status: OK | System Msg: JSON Schema Error: . Retry with valid JSON.''"
    by (simp_all add: build_context_def truthy_def no_description_def retry_context_def)
  have n: "resp_message no_message_response = None"
    by (simp add: no_message_response_def)
  have m: "resp_message bad_action_response = Some (JStr ''Done.'')"
    "resp_action bad_action_response = Some (JStr ''finish'')"
    "JStr ''finish'' \<noteq> JStr ''validate_music''" "JStr ''finish'' \<noteq> JStr ''upload_music''"
    "JStr ''finish'' \<noteq> JStr ''submit''"
    by (simp_all add: bad_action_response_def)
  note t1 = collaborator_failure_handling
         [where outs = ?outs and data = "JObj []" and self = AdAgent_init and auth = True
            and schema_str = no_description and user_input = "''hello''" and system_context = None
            and ?data2.0 = JNull and e = "''down''" and cm = ConversationManager_init
            and user_msg = "''hello''" and msgs = ?msgs and err_str = no_render and api = unreachable
            and result = no_message_response]
  note t2 = collaborator_failure_handling
         [where outs = "sconst (ModelError ''down'')" and self = AdAgent_init and auth = True
            and schema_str = no_description and user_input = "''hello''" and system_context = None
            and e = "''down''" and cm = ConversationManager_init
            and user_msg = "''hello''" and msgs = ?msgs and err_str = no_render and api = unreachable
            and result = bad_action_response and m = "JStr ''Done.''" and a = "JStr ''finish''"]
  have a1: "snd (snd (snd (agent_process_message AdAgent_init True no_description ''hello'' None False ?outs))) =
      [build_context True None,
       build_context True (Some (retry_context (no_description (AGENT_OUTPUT_SCHEMA (JObj [])))))]"
    by (rule t1 [THEN conjunct1, THEN mp, OF conjI [OF h(1) i(1)], THEN conjunct1])
  have a2: "fst (agent_process_message AdAgent_init True no_description ''hello'' None False ?outs) =
       fail ''System Error: Output Validation Failed.''"
    by (rule t1 [THEN conjunct1, THEN mp, OF conjI [OF h(1) i(1)], THEN conjunct2, THEN mp,
                 OF conjI [OF h(2) i(2)]])
  have a3: "agent_process_message AdAgent_init True no_description ''hello'' None False (sconst (ModelError ''down'')) =
       (fail (''System Error: '' @ ''down''), AdAgent_init, stl (sconst (ModelError ''down'')), [build_context True None])"
    by (rule t2 [THEN conjunct2, THEN conjunct1, THEN mp, OF h(3)])
  have a4: "fst (process_message ConversationManager_init ''hello''
                   (Inr (get_response (Inr no_message_response) ?msgs (ad_config ConversationManager_init)))
                   no_render unreachable) =
              JStr (''I apologize, but I encountered an error: '' @ APOS @ ''message'' @ APOS
                    @ ''. Could you please try again?'')
            \<and> snd (snd (process_message ConversationManager_init ''hello''
                   (Inr (get_response (Inr no_message_response) ?msgs (ad_config ConversationManager_init)))
                   no_render unreachable)) = []"
    by (rule t1 [THEN conjunct2, THEN conjunct2, THEN conjunct2, THEN conjunct2, THEN conjunct2,
                 THEN conjunct2, THEN conjunct2, THEN conjunct1, THEN mp, OF n])
  have a5: "fst (process_message ConversationManager_init ''hello''
                   (Inr (get_response (Inr bad_action_response) ?msgs (ad_config ConversationManager_init)))
                   no_render unreachable) = JStr ''Done.''
            \<and> snd (snd (process_message ConversationManager_init ''hello''
                   (Inr (get_response (Inr bad_action_response) ?msgs (ad_config ConversationManager_init)))
                   no_render unreachable)) = []"
    by (rule t2 [THEN conjunct2, THEN conjunct2, THEN conjunct2, THEN conjunct2, THEN conjunct2,
                 THEN conjunct2, THEN conjunct2, THEN conjunct2, THEN mp,
                 OF conjI [OF m(1) conjI [OF m(2) conjI [OF m(3) conjI [OF m(4) m(5)]]]]])
  have a123: "snd (snd (snd (agent_process_message AdAgent_init True no_description ''hello'' None False ?outs))) =
     [''Auth status: OK'', ''Auth status: OK | System Msg: JSON Schema Error: . Retry with valid JSON.'']
   \<and> fst (agent_process_message AdAgent_init True no_description ''hello'' None False ?outs) =
       fail ''System Error: Output Validation Failed.''
   \<and> agent_process_message AdAgent_init True no_description ''hello'' None False (sconst (ModelError ''down'')) =
       (fail ''System Error: down'', AdAgent_init, sconst (ModelError ''down''), [''Auth status: OK''])"
    using a1 a2 a3 by (simp add: c)
  from a123 a4 a5 show ?thesis
    by simp
qed

text \<open>
  Claim C8 as stated fails for malformed output: when the text of the model is not JSON,
  the agent calls the model once, does not retry, and returns a message that carries the
  decoder's error.
\<close>

theorem malformed_output_no_retry_counterexample:
  "agent_process_message AdAgent_init True no_description ''hello'' None False
     (sconst (ModelError ''Expecting value: line 1 column 1 (char 0)'')) =
     (fail ''System Error: Expecting value: line 1 column 1 (char 0)'', AdAgent_init,
      sconst (ModelError ''Expecting value: line 1 column 1 (char 0)''), [''Auth status: OK''])"
  by (subst agent_process_message.simps) (simp add: Let_def build_context_def truthy_def)

end
